theory Spec2Isabelle
  imports Complex_Main "HOL-Library.Multiset" "HOL-Library.Sublist"
begin

section \<open>Values, errors and the outside world\<close>

text \<open>
  The program is \<^verbatim>\<open>examples/train.py\<close>: a script that trains a normalizing flow on
  a molecular trajectory. It is modelled as state passing over the local variables of
  \<^verbatim>\<open>run_training\<close> and a small model of the world (the paths that exist, the
  order of the file-system operations, the console and the tensorboard scalars).

  A two-dimensional tensor is a list of rows, a one-dimensional tensor a list. The
  finite floating-point values are idealised as reals. The one non-finite value that
  the script's own reductions produce, the \<^verbatim>\<open>nan\<close> of the mean or the median of an
  empty tensor, is kept as \<open>NaN\<close>.
\<close>

type_synonym row = "real list"
type_synonym rows = "real list list"

datatype fval = Fin real | NaN

fun fmul :: "fval \<Rightarrow> fval \<Rightarrow> fval" where
  "fmul (Fin a) (Fin b) = Fin (a * b)"
| "fmul _ _ = NaN"

fun fsub :: "fval \<Rightarrow> fval \<Rightarrow> fval" where
  "fsub (Fin a) (Fin b) = Fin (a - b)"
| "fsub _ _ = NaN"

fun fadd :: "fval \<Rightarrow> fval \<Rightarrow> fval" where
  "fadd (Fin a) (Fin b) = Fin (a + b)"
| "fadd _ _ = NaN"

text \<open>Every exception of the script is a value; \<open>ExternalError\<close> is whatever a library raises.\<close>

datatype error =
    RuntimeError string
  | ValueError string
  | ZeroDivisionError string
  | OverflowError string
  | UnboundLocalError string
  | NameError string
  | ExternalError string

datatype device = Cuda | Cpu

text \<open>
  One Python float is kept with its non-finite values: \<^verbatim>\<open>args.fold_validation\<close> and the
  quotient computed from it, because \<^verbatim>\<open>int()\<close> of that quotient decides where the data
  is cut and raises on an infinity or a nan.
\<close>

datatype float64 = Finite64 real | PosInf64 | NegInf64 | NaN64

datatype io_event =
    Exists string
  | Remove string
  | Rmtree string
  | Makedirs string
  | OpenWriter string
  | LoadTrajectory string string
  | LoadNetwork string
  | ReadPdb string
  | SaveNetwork string
  | SaveTrajectory string rows

datatype out_line = Line string | Labelled string fval | Shape string nat int

record world =
  files :: "string set"
  io :: "io_event list"
  console :: "out_line list"
  scalars :: "(string \<times> fval \<times> int) list"

text \<open>
  A computation either returns a value or raises; an exception leaves the world as it
  was when it was raised, so \<open>Inl\<close> carries that world.
\<close>

type_synonym 'a result = "(error \<times> world) + 'a"

record traj =
  n_atoms :: nat
  xyz :: rows

record args =
  pdb_path :: string
  dcd_path :: string
  output_name :: string
  overwrite :: bool
  epochs :: int
  batch_size :: int
  warmup_epochs :: int
  init_lr :: real
  final_lr :: real
  weight_decay :: real
  dropout_fraction :: real
  log_freq :: int
  fold_validation :: float64
  load_network_arg :: "string option"
  coupling_layers :: int
  hidden_features :: int
  hidden_layers :: int
  spline_points :: int
  is_affine :: bool
  train_example :: bool
  train_energy :: bool
  example_weight :: real
  energy_weight :: real
  temperature :: real
  energy_max :: real
  energy_high :: real

subsection \<open>Random generators\<close>

text \<open>
  numpy's and torch's global generators are two separate states. Each is the stream of
  the draws it will still give: an integer stream for numpy, a stream of standard normal
  samples for torch. Nothing in the script seeds either.
\<close>

type_synonym nprng = "nat \<Rightarrow> nat"
type_synonym trng = "nat \<Rightarrow> real"

definition advance :: "nat \<Rightarrow> (nat \<Rightarrow> 'a) \<Rightarrow> (nat \<Rightarrow> 'a)" where
  "advance k g = (\<lambda>i. g (i + k))"

text \<open>
  \<^verbatim>\<open>np.random.choice(a, size, replace=True)\<close>: \<open>size\<close> independent draws from \<open>a\<close>.
  numpy raises ValueError for a negative size and for an empty \<open>a\<close> with a positive size.
\<close>

definition np_random_choice :: "nprng \<Rightarrow> nat list \<Rightarrow> int \<Rightarrow> error + (nat list \<times> nprng)" where
  "np_random_choice g a sz =
     (if sz < 0 then Inl (ValueError ''negative dimensions are not allowed'')
      else if a = [] \<and> 0 < sz then Inl (ValueError ''a cannot be empty unless no samples are taken'')
      else Inr (map (\<lambda>i. a ! (g i mod length a)) [0..<nat sz], advance (nat sz) g))"

text \<open>
  \<^verbatim>\<open>np.random.shuffle(x)\<close> permutes the rows of \<open>x\<close> in place by Fisher-Yates:
  for \<open>i\<close> from \<open>n - 1\<close> down to \<open>1\<close> it swaps row \<open>i\<close> with a row drawn from \<open>0..i\<close>.
\<close>

fun shuffle_loop :: "nat \<Rightarrow> nprng \<Rightarrow> 'a list \<Rightarrow> 'a list \<times> nprng" where
  "shuffle_loop 0 g xs = (xs, g)"
| "shuffle_loop (Suc k) g xs =
     (let i = Suc k; j = g 0 mod Suc i
      in shuffle_loop k (advance 1 g) (xs[i := xs ! j, j := xs ! i]))"

definition np_random_shuffle :: "nprng \<Rightarrow> 'a list \<Rightarrow> 'a list \<times> nprng" where
  "np_random_shuffle g xs = shuffle_loop (length xs - 1) g xs"

text \<open>
  \<^verbatim>\<open>torch.normal(mean, std, size=(r, c))\<close>: an \<open>r\<close> by \<open>c\<close> tensor of fresh samples;
  a negative dimension is a RuntimeError.
\<close>

definition torch_normal :: "real \<Rightarrow> real \<Rightarrow> int \<Rightarrow> int \<Rightarrow> trng \<Rightarrow> error + (rows \<times> trng)" where
  "torch_normal mu sigma r c g =
     (if r < 0 \<or> c < 0 then Inl (RuntimeError ''Trying to create tensor with negative dimension'')
      else Inr (map (\<lambda>i. map (\<lambda>j. mu + sigma * g (i * nat c + j)) [0..<nat c]) [0..<nat r],
                advance (nat r * nat c) g))"

subsection \<open>Reductions of a tensor to a scalar\<close>

definition torch_mean :: "real list \<Rightarrow> fval" where
  "torch_mean xs = (if xs = [] then NaN else Fin (sum_list xs / real (length xs)))"

text \<open>\<^verbatim>\<open>torch.median\<close> returns the lower of the two middle values.\<close>

definition torch_median :: "real list \<Rightarrow> fval" where
  "torch_median xs = (if xs = [] then NaN else Fin (sort xs ! ((length xs - 1) div 2)))"

definition torch_min :: "real list \<Rightarrow> error + fval" where
  "torch_min xs =
     (if xs = [] then Inl (RuntimeError ''min(): Expected reduction dim to be specified for input.numel() == 0'')
      else Inr (Fin (fold min (tl xs) (hd xs))))"

text \<open>\<^verbatim>\<open>torch.sum(z ** 2, dim=1)\<close>: the sum of the squared components of each row.\<close>

definition sum_sq_rows :: "rows \<Rightarrow> real list" where
  "sum_sq_rows z = map (\<lambda>r. sum_list (map (\<lambda>v. v ^ 2) r)) z"

subsection \<open>Python slicing and truncation\<close>

text \<open>
  \<^verbatim>\<open>int(x)\<close> on a float truncates towards zero; it raises OverflowError on an
  infinity and ValueError on a nan.
\<close>

definition py_int :: "float64 \<Rightarrow> error + int" where
  "py_int x =
     (case x of
        Finite64 v \<Rightarrow> Inr (if 0 \<le> v then \<lfloor>v\<rfloor> else \<lceil>v\<rceil>)
      | PosInf64 \<Rightarrow> Inl (OverflowError ''cannot convert float infinity to integer'')
      | NegInf64 \<Rightarrow> Inl (OverflowError ''cannot convert float infinity to integer'')
      | NaN64 \<Rightarrow> Inl (ValueError ''cannot convert float NaN to integer''))"

text \<open>A slice bound \<open>k\<close> counts from the end when negative and is clamped to the length.\<close>

definition slice_bound :: "int \<Rightarrow> nat \<Rightarrow> nat" where
  "slice_bound k n = (if k < 0 then nat (max 0 (int n + k)) else min (nat k) n)"

definition slice_to :: "int \<Rightarrow> 'a list \<Rightarrow> 'a list" where
  "slice_to k xs = take (slice_bound k (length xs)) xs"

definition slice_from :: "int \<Rightarrow> 'a list \<Rightarrow> 'a list" where
  "slice_from k xs = drop (slice_bound k (length xs)) xs"

section \<open>The libraries the script calls\<close>

text \<open>
  The flow network, the optimizer, the force field and the trajectory reader are not
  part of the script. They are the fields of one record of functions, which every
  function of the model takes as its first argument. Each may raise. The network's
  \<open>forward\<close> and \<open>inverse\<close> take the module's mode (\<^verbatim>\<open>net.train()\<close> or
  \<^verbatim>\<open>net.eval()\<close>) and whether gradients are tracked, draw from torch's generator
  (dropout) and may update the module (batch-norm buffers); they return the transformed
  batch and the log-determinant of each sample.

  \<open>float_div\<close> is Python's \<^verbatim>\<open>/\<close> of an int by a non-zero float: IEEE binary64
  division with its rounding, its overflow to an infinity and its nan for a nan divisor.
  HOL has no such operation, so it is a field of the same record.
\<close>

datatype layer =
    MixedTransform int
  | RandomPermutation int int
  | AffineCouplingTransform bool int int real
  | PiecewiseRationalQuadraticCouplingTransform bool int int real int

record ('net, 'opt, 'ctx) externals =
  cuda_is_available :: bool
  float_div :: "int \<Rightarrow> float64 \<Rightarrow> float64"
  md_load :: "string set \<Rightarrow> string \<Rightarrow> string \<Rightarrow> error + traj"
  superpose_backbone :: "traj \<Rightarrow> traj"
  composite_transform :: "layer list \<Rightarrow> traj \<Rightarrow> rows \<Rightarrow> device \<Rightarrow> trng \<Rightarrow> error + ('net \<times> trng)"
  torch_load :: "string set \<Rightarrow> string \<Rightarrow> device \<Rightarrow> error + 'net"
  trainable_params :: "'net \<Rightarrow> nat"
  adamw :: "'net \<Rightarrow> real \<Rightarrow> real \<Rightarrow> error + 'opt"
  warmup_cosine :: "'opt \<Rightarrow> int \<Rightarrow> real \<Rightarrow> int \<Rightarrow> int \<Rightarrow> error + 'opt"
  openmm_simulation :: "string set \<Rightarrow> string \<Rightarrow> error + 'ctx"
  net_forward :: "'net \<Rightarrow> bool \<Rightarrow> bool \<Rightarrow> trng \<Rightarrow> rows \<Rightarrow> error + (rows \<times> real list \<times> 'net \<times> trng)"
  net_inverse :: "'net \<Rightarrow> bool \<Rightarrow> bool \<Rightarrow> trng \<Rightarrow> rows \<Rightarrow> error + (rows \<times> real list \<times> 'net \<times> trng)"
  openmm_energy :: "rows \<Rightarrow> 'ctx \<Rightarrow> real \<Rightarrow> error + real list"
  regularize_energy :: "real list \<Rightarrow> real \<Rightarrow> real \<Rightarrow> real list"
  backward_step :: "'opt \<Rightarrow> 'net \<Rightarrow> fval \<Rightarrow> int \<Rightarrow> error + ('opt \<times> 'net)"

section \<open>The functions of the script\<close>

definition then_do :: "'a result \<Rightarrow> ('a \<Rightarrow> 'b result) \<Rightarrow> 'b result" where
  "then_do r f = (case r of Inl e \<Rightarrow> Inl e | Inr x \<Rightarrow> f x)"

definition print_line :: "string \<Rightarrow> world \<Rightarrow> world" where
  "print_line msg w = w\<lparr>console := console w @ [Line msg]\<rparr>"

definition print_labelled :: "string \<Rightarrow> fval \<Rightarrow> world \<Rightarrow> world" where
  "print_labelled label v w = w\<lparr>console := console w @ [Labelled label v]\<rparr>"

definition log_io :: "io_event \<Rightarrow> world \<Rightarrow> world" where
  "log_io ev w = w\<lparr>io := io w @ [ev]\<rparr>"

definition get_device :: "('net, 'opt, 'ctx) externals \<Rightarrow> world \<Rightarrow> device \<times> world" where
  "get_device ext w =
     (if cuda_is_available ext then (Cuda, print_line ''Using cuda'' w)
      else (Cpu, print_line ''Using CPU'' w))"

text \<open>\<^verbatim>\<open>if os.path.exists(p): os.remove(p)\<close>\<close>

definition remove_if_exists :: "string \<Rightarrow> world \<Rightarrow> world" where
  "remove_if_exists p w =
     (let w1 = log_io (Exists p) w
      in if p \<in> files w then log_io (Remove p) (w1\<lparr>files := files w - {p}\<rparr>) else w1)"

text \<open>\<^verbatim>\<open>if os.path.exists(d): shutil.rmtree(d)\<close> removes \<open>d\<close> and everything below it.\<close>

definition rmtree_if_exists :: "string \<Rightarrow> world \<Rightarrow> world" where
  "rmtree_if_exists d w =
     (let w1 = log_io (Exists d) w
      in if d \<in> files w
         then log_io (Rmtree d) (w1\<lparr>files := {q \<in> files w. q \<noteq> d \<and> \<not> prefix (d @ ''/'') q}\<rparr>)
         else w1)"

definition delete_run :: "string \<Rightarrow> world \<Rightarrow> world" where
  "delete_run name w =
     rmtree_if_exists (''runs/'' @ name)
       (remove_if_exists (''sample_traj/'' @ name @ ''.pdb'')
         (remove_if_exists (''training_traj/'' @ name @ ''.pdb'')
           (remove_if_exists (''models/'' @ name @ ''.pkl'') w)))"

definition makedirs :: "string \<Rightarrow> world \<Rightarrow> world" where
  "makedirs d w = log_io (Makedirs d) (w\<lparr>files := insert d (files w)\<rparr>)"

definition create_dirs :: "world \<Rightarrow> world" where
  "create_dirs w = makedirs ''sample_traj'' (makedirs ''training_traj'' (makedirs ''models'' w))"

text \<open>\<^verbatim>\<open>SummaryWriter(log_dir=f"runs/{name}", purge_step=0)\<close> creates its directory.\<close>

definition create_tensorboard :: "string \<Rightarrow> world \<Rightarrow> world" where
  "create_tensorboard name w =
     log_io (OpenWriter (''runs/'' @ name)) (w\<lparr>files := insert (''runs/'' @ name) (files w)\<rparr>)"

definition add_scalar :: "string \<Rightarrow> fval \<Rightarrow> int \<Rightarrow> world \<Rightarrow> world" where
  "add_scalar tag v step w = w\<lparr>scalars := scalars w @ [(tag, v, step)]\<rparr>"

text \<open>
  \<^verbatim>\<open>load_trajectory(pdb_path, dcd_path)\<close> reads the module-level name \<^verbatim>\<open>args\<close>,
  which is bound only when the file runs as a script: the first argument is that global
  (\<open>None\<close> when unbound).
\<close>

definition load_trajectory ::
  "('net, 'opt, 'ctx) externals \<Rightarrow> args option \<Rightarrow> string \<Rightarrow> string \<Rightarrow> world \<Rightarrow> (traj \<times> world) result" where
  "load_trajectory ext global_args pdb dcd w =
     (let w1 = print_line ''Loading trajectory'' w
      in case global_args of
           None \<Rightarrow> Inl (NameError ''args'', w1)
         | Some g \<Rightarrow>
             (let w2 = log_io (LoadTrajectory (dcd_path g) (pdb_path g)) w1
              in case md_load ext (files w) (dcd_path g) (pdb_path g) of
                   Inl e \<Rightarrow> Inl (e, w2)
                 | Inr t \<Rightarrow> Inr (superpose_backbone ext t, w2)))"

definition print_number_trainable_params :: "('net, 'opt, 'ctx) externals \<Rightarrow> 'net \<Rightarrow> world \<Rightarrow> world" where
  "print_number_trainable_params ext nt w =
     print_line []
       (print_labelled ''Network has trainable parameters'' (Fin (real (trainable_params ext nt)))
         (print_line [] w))"

text \<open>The three layers one pass of the loop of \<^verbatim>\<open>build_network\<close> appends.\<close>

definition coupling_layers_of ::
  "int \<Rightarrow> bool \<Rightarrow> int \<Rightarrow> int \<Rightarrow> int \<Rightarrow> real \<Rightarrow> layer list" where
  "coupling_layers_of nd use_affine_coupling n_spline n_hidden_features n_hidden_layers dropout =
     (if use_affine_coupling
      then [RandomPermutation (nd - 6) 1,
            AffineCouplingTransform True n_hidden_features n_hidden_layers dropout,
            AffineCouplingTransform False n_hidden_features n_hidden_layers dropout]
      else [RandomPermutation (nd - 6) 1,
            PiecewiseRationalQuadraticCouplingTransform True n_hidden_features n_hidden_layers dropout n_spline,
            PiecewiseRationalQuadraticCouplingTransform False n_hidden_features n_hidden_layers dropout n_spline])"

definition build_network ::
  "('net, 'opt, 'ctx) externals \<Rightarrow> int \<Rightarrow> traj \<Rightarrow> rows \<Rightarrow> int \<Rightarrow> bool \<Rightarrow> int \<Rightarrow> int \<Rightarrow> int \<Rightarrow> real
     \<Rightarrow> device \<Rightarrow> trng \<Rightarrow> world \<Rightarrow> ('net \<times> trng \<times> world) result" where
  "build_network ext nd topology training_data n_coupling use_affine_coupling n_spline
       n_hidden_features n_hidden_layers dropout dev g w =
     (let w1 = print_line ''Creating network'' w;
          layers = MixedTransform nd
            # concat (replicate (nat n_coupling)
                (coupling_layers_of nd use_affine_coupling n_spline n_hidden_features n_hidden_layers dropout))
      in case composite_transform ext layers topology training_data dev g of
           Inl e \<Rightarrow> Inl (e, w1)
         | Inr (nt, g') \<Rightarrow> Inr (nt, g', print_number_trainable_params ext nt (print_line ''net'' w1)))"

definition load_network ::
  "('net, 'opt, 'ctx) externals \<Rightarrow> string \<Rightarrow> device \<Rightarrow> world \<Rightarrow> ('net \<times> world) result" where
  "load_network ext path dev w =
     (let w1 = log_io (LoadNetwork path) w
      in case torch_load ext (files w) path dev of
           Inl e \<Rightarrow> Inl (e, w1)
         | Inr nt \<Rightarrow> Inr (nt, print_number_trainable_params ext nt (print_line ''net'' w1)))"

definition get_openmm_context ::
  "('net, 'opt, 'ctx) externals \<Rightarrow> string \<Rightarrow> world \<Rightarrow> ('ctx \<times> world) result" where
  "get_openmm_context ext pdb w =
     (let w1 = log_io (ReadPdb pdb) w
      in case openmm_simulation ext (files w) pdb of
           Inl e \<Rightarrow> Inl (e, w1)
         | Inr c \<Rightarrow> Inr (c, w1))"

text \<open>
  \<^verbatim>\<open>get_energy_evaluator\<close> returns the closure \<^verbatim>\<open>eval_energy\<close>: the force-field
  energy of each conformation, passed through \<^verbatim>\<open>protein.regularize_energy\<close> with the
  two thresholds.
\<close>

definition get_energy_evaluator ::
  "('net, 'opt, 'ctx) externals \<Rightarrow> 'ctx \<Rightarrow> real \<Rightarrow> real \<Rightarrow> real \<Rightarrow> rows \<Rightarrow> error + real list" where
  "get_energy_evaluator ext openmm_context temp e_high e_max x =
     (case openmm_energy ext x openmm_context temp of
        Inl e \<Rightarrow> Inl e
      | Inr raw \<Rightarrow> Inr (regularize_energy ext raw e_high e_max))"

text \<open>
  \<^verbatim>\<open>setup_optimizer\<close> builds AdamW over the network's parameters;
  \<^verbatim>\<open>setup_scheduler\<close> wraps it in a warm-up (multiplier 8) followed by cosine
  annealing over \<open>epochs\<close> down to \<open>final_lr\<close>. One value stands for the optimizer
  with its scheduler.
\<close>

definition setup_optimizer :: "('net, 'opt, 'ctx) externals \<Rightarrow> 'net \<Rightarrow> real \<Rightarrow> real \<Rightarrow> error + 'opt" where
  "setup_optimizer ext nt lr decay = adamw ext nt lr decay"

definition setup_scheduler ::
  "('net, 'opt, 'ctx) externals \<Rightarrow> 'opt \<Rightarrow> real \<Rightarrow> real \<Rightarrow> int \<Rightarrow> int \<Rightarrow> error + 'opt" where
  "setup_scheduler ext optimizer lr0 lr1 n_epochs n_warmup =
     warmup_cosine ext optimizer n_epochs lr1 8 n_warmup"

subsection \<open>The local variables of \<^verbatim>\<open>run_training\<close>\<close>

text \<open>
  A local that the loop assigns is \<open>None\<close> until its first assignment; reading it then
  is Python's UnboundLocalError. \<open>wld\<close> is the world as the run has left it so far.
  A frame of the trajectory is one row of \<open>3 * n_atoms\<close> coordinates, so the reshapes
  between \<open>(frames, atoms, 3)\<close> and \<open>(frames, n_dim)\<close> are the identity.
\<close>

record ('net, 'opt, 'ctx) run_state =
  wld :: world
  trj :: traj
  n_dim :: int
  net :: 'net
  optim :: 'opt
  openmm_context :: 'ctx
  np_rng :: nprng
  torch_rng :: trng
  val_data :: rows
  train_data :: rows
  fixed_z :: rows
  fixed_coords :: "rows list"
  example_loss :: "fval option"
  energy_loss :: "fval option"
  loss :: "fval option"
  example_loss_val :: "fval option"
  energy_loss_val :: "fval option"
  loss_val :: "fval option"
  fixed_energy :: "fval option"

definition truthy :: "string option \<Rightarrow> bool" where
  "truthy v = (case v of None \<Rightarrow> False | Some t \<Rightarrow> t \<noteq> [])"

text \<open>
  Lines 208 to 267: everything \<^verbatim>\<open>run_training\<close> does before the loop. The array
  \<^verbatim>\<open>training_data_npy\<close> is a view of \<^verbatim>\<open>traj.xyz\<close>, so the shuffle permutes the
  trajectory's frames too; the tensor given to \<^verbatim>\<open>build_network\<close> is a copy made
  before the shuffle.
\<close>

definition initialise ::
  "('net, 'opt, 'ctx) externals \<Rightarrow> args option \<Rightarrow> args \<Rightarrow> device \<Rightarrow> nprng \<Rightarrow> trng \<Rightarrow> world
     \<Rightarrow> ('net, 'opt, 'ctx) run_state result" where
  "initialise ext global_args a dev g_np g_torch w =
     (case load_trajectory ext global_args (pdb_path a) (dcd_path a)
             (create_tensorboard (output_name a) w) of
        Inl e \<Rightarrow> Inl e
      | Inr (tr, w2) \<Rightarrow>
          (let nd = int (n_atoms tr) * 3;
               training_data_npy = xyz tr;
               training_data = training_data_npy;
               w3 = print_line ''Trajectory loaded'' w2;
               w4 = w3\<lparr>console := console w3 @ [Shape ''Data has size:'' (length training_data) nd]\<rparr>
           in case (if truthy (load_network_arg a)
                    then (case load_network ext (''models/'' @ the (load_network_arg a) @ ''.pkl'') dev w4 of
                            Inl e \<Rightarrow> Inl e
                          | Inr (nt, w5) \<Rightarrow> Inr (nt, g_torch, w5))
                    else build_network ext nd tr training_data (coupling_layers a) (is_affine a)
                           (spline_points a) (hidden_features a) (hidden_layers a)
                           (dropout_fraction a) dev g_torch w4) of
                Inl e \<Rightarrow> Inl e
              | Inr (nt, g1, w5) \<Rightarrow>
                  (case setup_optimizer ext nt (init_lr a) (weight_decay a) of
                     Inl e \<Rightarrow> Inl (e, w5)
                   | Inr optimizer \<Rightarrow>
                  (case setup_scheduler ext optimizer (init_lr a) (final_lr a) (epochs a) (warmup_epochs a) of
                     Inl e \<Rightarrow> Inl (e, w5)
                   | Inr scheduler \<Rightarrow>
                  (case get_openmm_context ext (pdb_path a) w5 of
                     Inl e \<Rightarrow> Inl e
                   | Inr (ctx, w6) \<Rightarrow>
                       (let n = length training_data_npy
                        in if fold_validation a = Finite64 0
                           then Inl (ZeroDivisionError ''float division by zero'', w6)
                           else case py_int (float_div ext (int n) (fold_validation a)) of
                                  Inl e \<Rightarrow> Inl (e, w6)
                                | Inr n_val \<Rightarrow>
                                (let (shuffled, g_np') = np_random_shuffle g_np training_data_npy
                                 in case torch_normal 0 1 1 (nd - 6) g1 of
                                      Inl e \<Rightarrow> Inl (e, w6)
                                    | Inr (fz, g2) \<Rightarrow>
                                        Inr \<lparr>wld = w6, trj = tr\<lparr>xyz := shuffled\<rparr>, n_dim = nd,
                                             net = nt, optim = scheduler, openmm_context = ctx,
                                             np_rng = g_np', torch_rng = g2,
                                             val_data = slice_to n_val shuffled,
                                             train_data = slice_from n_val shuffled,
                                             fixed_z = fz, fixed_coords = [],
                                             example_loss = None, energy_loss = None, loss = None,
                                             example_loss_val = None, energy_loss_val = None,
                                             loss_val = None, fixed_energy = None\<rparr>)))))))"

subsection \<open>One pass of the training loop\<close>

definition read_local :: "string \<Rightarrow> 'a option \<Rightarrow> world \<Rightarrow> 'a result" where
  "read_local name v w = (case v of None \<Rightarrow> Inl (UnboundLocalError name, w) | Some x \<Rightarrow> Inr x)"

text \<open>
  Lines 274 to 281. The network is in training mode (\<^verbatim>\<open>net.train()\<close>, line 271) and
  gradients are tracked.
\<close>

definition example_block ::
  "('net, 'opt, 'ctx) externals \<Rightarrow> args \<Rightarrow> ('net, 'opt, 'ctx) run_state \<Rightarrow> ('net, 'opt, 'ctx) run_state result" where
  "example_block ext a s =
     (if train_example a
      then (case np_random_choice (np_rng s) [0..<length (train_data s)] (batch_size a) of
              Inl e \<Rightarrow> Inl (e, wld s)
            | Inr (index_batch, g') \<Rightarrow>
                (let x_batch = map (\<lambda>i. train_data s ! i) index_batch
                 in case net_forward ext (net s) True True (torch_rng s) x_batch of
                      Inl e \<Rightarrow> Inl (e, wld s)
                    | Inr (z, z_jac, nt, tg) \<Rightarrow>
                        Inr (s\<lparr>np_rng := g', net := nt, torch_rng := tg,
                               example_loss := Some (fmul (Fin (example_weight a))
                                 (fsub (fmul (Fin (1 / 2)) (torch_mean (sum_sq_rows z)))
                                       (torch_mean z_jac)))\<rparr>)))
      else Inr s)"

text \<open>Lines 283 to 290.\<close>

definition energy_block ::
  "('net, 'opt, 'ctx) externals \<Rightarrow> args \<Rightarrow> ('net, 'opt, 'ctx) run_state \<Rightarrow> ('net, 'opt, 'ctx) run_state result" where
  "energy_block ext a s =
     (if train_energy a
      then (case torch_normal 0 1 (batch_size a) (n_dim s - 6) (torch_rng s) of
              Inl e \<Rightarrow> Inl (e, wld s)
            | Inr (z_batch, tg1) \<Rightarrow>
                (case net_inverse ext (net s) True True tg1 z_batch of
                   Inl e \<Rightarrow> Inl (e, wld s)
                 | Inr (x, x_jac, nt, tg2) \<Rightarrow>
                     (case get_energy_evaluator ext (openmm_context s) (temperature a)
                             (energy_high a) (energy_max a) x of
                        Inl e \<Rightarrow> Inl (e, wld s)
                      | Inr energies \<Rightarrow>
                          Inr (s\<lparr>net := nt, torch_rng := tg2,
                                 energy_loss := Some (fmul (Fin (energy_weight a))
                                   (fsub (torch_mean energies) (torch_mean x_jac)))\<rparr>))))
      else Inr s)"

text \<open>Lines 292 to 297.\<close>

definition combine_block ::
  "args \<Rightarrow> ('net, 'opt, 'ctx) run_state \<Rightarrow> ('net, 'opt, 'ctx) run_state result" where
  "combine_block a s =
     (if train_example a \<and> train_energy a
      then then_do (read_local ''example_loss'' (example_loss s) (wld s)) (\<lambda>l1.
           then_do (read_local ''energy_loss'' (energy_loss s) (wld s)) (\<lambda>l2.
             Inr (s\<lparr>loss := Some (fadd l1 l2)\<rparr>)))
      else if train_example a
      then then_do (read_local ''example_loss'' (example_loss s) (wld s)) (\<lambda>l1.
             Inr (s\<lparr>loss := Some l1\<rparr>))
      else then_do (read_local ''energy_loss'' (energy_loss s) (wld s)) (\<lambda>l2.
             Inr (s\<lparr>loss := Some l2\<rparr>)))"

text \<open>
  Lines 299 to 301 (with \<^verbatim>\<open>optimizer.zero_grad()\<close> of line 272):
  \<^verbatim>\<open>loss.backward(); optimizer.step(); scheduler.step(epoch)\<close>.
\<close>

definition backward_block ::
  "('net, 'opt, 'ctx) externals \<Rightarrow> int \<Rightarrow> ('net, 'opt, 'ctx) run_state \<Rightarrow> ('net, 'opt, 'ctx) run_state result" where
  "backward_block ext epoch s =
     then_do (read_local ''loss'' (loss s) (wld s)) (\<lambda>l.
       case backward_step ext (optim s) (net s) l epoch of
         Inl e \<Rightarrow> Inl (e, wld s)
       | Inr (optimizer, nt) \<Rightarrow> Inr (s\<lparr>optim := optimizer, net := nt\<rparr>))"

subsection \<open>Validation and logging\<close>

text \<open>Lines 306 to 311, after \<^verbatim>\<open>net.eval()\<close>.\<close>

definition log_train_losses ::
  "args \<Rightarrow> int \<Rightarrow> ('net, 'opt, 'ctx) run_state \<Rightarrow> ('net, 'opt, 'ctx) run_state result" where
  "log_train_losses a epoch s =
     then_do (read_local ''loss'' (loss s) (wld s)) (\<lambda>l.
       let w1 = add_scalar ''Train/loss'' l epoch (wld s)
       in then_do (if train_example a
                   then then_do (read_local ''example_loss'' (example_loss s) w1) (\<lambda>l1.
                          Inr (add_scalar ''Train/example'' l1 epoch w1))
                   else Inr w1) (\<lambda>w2.
          then_do (if train_energy a
                   then then_do (read_local ''energy_loss'' (energy_loss s) w2) (\<lambda>l2.
                          Inr (add_scalar ''Train/energy'' l2 epoch w2))
                   else Inr w2) (\<lambda>w3.
            Inr (s\<lparr>wld := w3\<rparr>))))"

text \<open>
  Lines 314 to 341, under \<^verbatim>\<open>torch.no_grad()\<close> and in evaluation mode: both validation
  losses, whatever objectives are enabled. The regularized validation energies are
  returned for the logging that follows.
\<close>

definition validation_losses ::
  "('net, 'opt, 'ctx) externals \<Rightarrow> args \<Rightarrow> ('net, 'opt, 'ctx) run_state
     \<Rightarrow> (('net, 'opt, 'ctx) run_state \<times> real list) result" where
  "validation_losses ext a s =
     (case np_random_choice (np_rng s) [0..<length (val_data s)] (batch_size a) of
        Inl e \<Rightarrow> Inl (e, wld s)
      | Inr (index_val, g') \<Rightarrow>
     (let x_val = map (\<lambda>i. val_data s ! i) index_val
      in case net_forward ext (net s) False False (torch_rng s) x_val of
        Inl e \<Rightarrow> Inl (e, wld s)
      | Inr (z_prime, z_prime_jac, nt1, tg1) \<Rightarrow>
     (case torch_normal 0 1 (batch_size a) (n_dim s - 6) tg1 of
        Inl e \<Rightarrow> Inl (e, wld s)
      | Inr (z_val, tg2) \<Rightarrow>
     (case net_inverse ext nt1 False False tg2 z_val of
        Inl e \<Rightarrow> Inl (e, wld s)
      | Inr (x_prime, x_prime_jac, nt2, tg3) \<Rightarrow>
     (case get_energy_evaluator ext (openmm_context s) (temperature a)
             (energy_high a) (energy_max a) x_prime of
        Inl e \<Rightarrow> Inl (e, wld s)
      | Inr val_energies \<Rightarrow>
          (let l1 = fmul (Fin (example_weight a))
                      (fsub (fmul (Fin (1 / 2)) (torch_mean (sum_sq_rows z_prime)))
                            (torch_mean z_prime_jac));
               l2 = fmul (Fin (energy_weight a))
                      (fsub (torch_mean val_energies) (torch_mean x_prime_jac));
               l = (if train_example a \<and> train_energy a then fadd l1 l2
                    else if train_example a then l1 else l2)
           in Inr (s\<lparr>np_rng := g', net := nt2, torch_rng := tg3,
                      example_loss_val := Some l1, energy_loss_val := Some l2,
                      loss_val := Some l\<rparr>, val_energies)))))))"

text \<open>
  Lines 347 to 364. The progress bar's postfix (lines 343 to 345) is display only and
  is left out. \<^verbatim>\<open>torch.min\<close> of an empty tensor raises.
\<close>

definition log_validation ::
  "int \<Rightarrow> real list \<Rightarrow> ('net, 'opt, 'ctx) run_state \<Rightarrow> ('net, 'opt, 'ctx) run_state result" where
  "log_validation epoch val_energies s =
     then_do (read_local ''loss_val'' (loss_val s) (wld s)) (\<lambda>l.
     then_do (read_local ''example_loss_val'' (example_loss_val s) (wld s)) (\<lambda>l1.
     then_do (read_local ''energy_loss_val'' (energy_loss_val s) (wld s)) (\<lambda>l2.
       let w5 = add_scalar ''Energies/median_energy'' (torch_median val_energies) epoch
                  (add_scalar ''Energies/mean_energy'' (torch_mean val_energies) epoch
                    (add_scalar ''Validation/energy'' l2 epoch
                      (add_scalar ''Validation/example'' l1 epoch
                        (add_scalar ''Validation/loss'' l epoch (wld s)))))
       in case torch_min val_energies of
            Inl e \<Rightarrow> Inl (e, w5)
          | Inr m \<Rightarrow> Inr (s\<lparr>wld := add_scalar ''Energies/minimum_energy'' m epoch w5\<rparr>))))"

text \<open>
  Lines 366 to 373: the fixed latent vector is decoded, its energy (not regularized)
  is logged and its coordinates are appended to \<^verbatim>\<open>fixed_coords\<close>.
\<close>

definition fixed_block ::
  "('net, 'opt, 'ctx) externals \<Rightarrow> args \<Rightarrow> int \<Rightarrow> ('net, 'opt, 'ctx) run_state
     \<Rightarrow> ('net, 'opt, 'ctx) run_state result" where
  "fixed_block ext a epoch s =
     (case net_inverse ext (net s) False False (torch_rng s) (fixed_z s) of
        Inl e \<Rightarrow> Inl (e, wld s)
      | Inr (fixed_x, fixed_x_jac, nt, tg) \<Rightarrow>
          (case openmm_energy ext fixed_x (openmm_context s) (temperature a) of
             Inl e \<Rightarrow> Inl (e, wld s)
           | Inr raw \<Rightarrow>
               Inr (s\<lparr>wld := add_scalar ''Energies/fixed_energy'' (torch_mean raw) epoch (wld s),
                      net := nt, torch_rng := tg,
                      fixed_coords := fixed_coords s @ [fixed_x],
                      fixed_energy := Some (torch_mean raw)\<rparr>)))"

definition validate_log ::
  "('net, 'opt, 'ctx) externals \<Rightarrow> args \<Rightarrow> int \<Rightarrow> ('net, 'opt, 'ctx) run_state
     \<Rightarrow> ('net, 'opt, 'ctx) run_state result" where
  "validate_log ext a epoch s =
     then_do (log_train_losses a epoch s) (\<lambda>s1.
     then_do (validation_losses ext a s1) (\<lambda>(s2, val_energies).
     then_do (log_validation epoch val_energies s2) (\<lambda>s3.
       fixed_block ext a epoch s3)))"

text \<open>Lines 271 to 301: the training part of one pass.\<close>

definition train_step ::
  "('net, 'opt, 'ctx) externals \<Rightarrow> args \<Rightarrow> int \<Rightarrow> ('net, 'opt, 'ctx) run_state
     \<Rightarrow> ('net, 'opt, 'ctx) run_state result" where
  "train_step ext a epoch s =
     then_do (example_block ext a s) (\<lambda>s1.
     then_do (energy_block ext a s1) (\<lambda>s2.
     then_do (combine_block a s2) (\<lambda>s3.
       backward_block ext epoch s3)))"

text \<open>
  The body of the loop, lines 271 to 373. \<^verbatim>\<open>epoch % args.log_freq\<close> is Python's
  modulo on integers: it raises for a zero divisor and takes the divisor's sign.
\<close>

definition epoch_body ::
  "('net, 'opt, 'ctx) externals \<Rightarrow> args \<Rightarrow> int \<Rightarrow> ('net, 'opt, 'ctx) run_state
     \<Rightarrow> ('net, 'opt, 'ctx) run_state result" where
  "epoch_body ext a epoch s =
     then_do (train_step ext a epoch s) (\<lambda>s4.
       if log_freq a = 0
       then Inl (ZeroDivisionError ''integer division or modulo by zero'', wld s4)
       else if epoch mod log_freq a = 0 then validate_log ext a epoch s4
       else Inr s4)"

text \<open>\<^verbatim>\<open>for epoch in range(args.epochs)\<close>: \<open>k\<close> passes are left, the next has index \<open>epoch\<close>.\<close>

fun run_epochs ::
  "('net, 'opt, 'ctx) externals \<Rightarrow> args \<Rightarrow> int \<Rightarrow> nat \<Rightarrow> ('net, 'opt, 'ctx) run_state
     \<Rightarrow> ('net, 'opt, 'ctx) run_state result" where
  "run_epochs ext a epoch 0 s = Inr s"
| "run_epochs ext a epoch (Suc k) s =
     (case epoch_body ext a epoch s of
        Inl e \<Rightarrow> Inl e
      | Inr s' \<Rightarrow> run_epochs ext a (epoch + 1) k s')"

subsection \<open>After the loop\<close>

definition print_local :: "string \<Rightarrow> string \<Rightarrow> fval option \<Rightarrow> world \<Rightarrow> world result" where
  "print_local label name v w =
     then_do (read_local name v w) (\<lambda>x. Inr (print_labelled label x w))"

definition save_file :: "io_event \<Rightarrow> string \<Rightarrow> world \<Rightarrow> world" where
  "save_file ev path w = log_io ev (w\<lparr>files := insert path (files w)\<rparr>)"

text \<open>Lines 376 to 387: the model is saved, then the last values of the losses are printed.\<close>

definition final_report :: "args \<Rightarrow> ('net, 'opt, 'ctx) run_state \<Rightarrow> world result" where
  "final_report a s =
     (let model_path = ''models/'' @ output_name a @ ''.pkl'';
          w0 = save_file (SaveNetwork model_path) model_path (wld s)
      in then_do (print_local ''Final loss:'' ''loss'' (loss s) w0) (\<lambda>w1.
         then_do (if train_example a
                  then print_local ''Final example loss:'' ''example_loss'' (example_loss s) w1
                  else Inr w1) (\<lambda>w2.
         then_do (if train_energy a
                  then print_local ''Final energy loss:'' ''energy_loss'' (energy_loss s) w2
                  else Inr w2) (\<lambda>w3.
         then_do (print_local ''Final validation loss:'' ''loss_val'' (loss_val s) w3) (\<lambda>w4.
         then_do (print_local ''Final validation example loss:'' ''example_loss_val''
                    (example_loss_val s) w4) (\<lambda>w5.
         then_do (print_local ''Final validation energy loss:'' ''energy_loss_val''
                    (energy_loss_val s) w5) (\<lambda>w6.
           print_local ''Final fixed energy loss:'' ''fixed_energy'' (fixed_energy s) w6)))))))"

text \<open>
  Lines 389 to 404: the decoded fixed latent vectors and one fresh batch of samples are
  written as trajectories. numpy cannot reshape an empty array to \<open>(0, -1, 3)\<close>, which
  is what an empty \<^verbatim>\<open>fixed_coords\<close> or a batch of size zero gives.
\<close>

definition write_trajectories ::
  "('net, 'opt, 'ctx) externals \<Rightarrow> args \<Rightarrow> ('net, 'opt, 'ctx) run_state \<Rightarrow> world \<Rightarrow> world result" where
  "write_trajectories ext a s w7 =
     (if fixed_coords s = []
      then Inl (ValueError ''cannot reshape array of size 0 into shape (0,newaxis,3)'', w7)
      else (let training_path = ''training_traj/'' @ output_name a @ ''.pdb'';
                w8 = save_file (SaveTrajectory training_path (concat (fixed_coords s)))
                       training_path w7
            in case torch_normal 0 1 (batch_size a) (n_dim s - 6) (torch_rng s) of
                 Inl e \<Rightarrow> Inl (e, w8)
               | Inr (z, tg) \<Rightarrow>
                   (case net_inverse ext (net s) False True tg z of
                      Inl e \<Rightarrow> Inl (e, w8)
                    | Inr (x, x_jac, nt, tg') \<Rightarrow>
                        if batch_size a = 0
                        then Inl (ValueError ''cannot reshape array of size 0 into shape (0,newaxis,3)'', w8)
                        else (let sample_path = ''sample_traj/'' @ output_name a @ ''.pdb''
                              in Inr (save_file (SaveTrajectory sample_path x) sample_path w8)))))"

definition finalize ::
  "('net, 'opt, 'ctx) externals \<Rightarrow> args \<Rightarrow> ('net, 'opt, 'ctx) run_state \<Rightarrow> world result" where
  "finalize ext a s = then_do (final_report a s) (\<lambda>w7. write_trajectories ext a s w7)"

definition run_training ::
  "('net, 'opt, 'ctx) externals \<Rightarrow> args option \<Rightarrow> args \<Rightarrow> device \<Rightarrow> nprng \<Rightarrow> trng \<Rightarrow> world
     \<Rightarrow> world result" where
  "run_training ext global_args a dev g_np g_torch w =
     then_do (initialise ext global_args a dev g_np g_torch w) (\<lambda>s0.
     then_do (run_epochs ext a 0 (nat (epochs a)) s0) (\<lambda>s.
       finalize ext a s))"

subsection \<open>The script's entry point\<close>

text \<open>
  Lines 571 to 592, after \<^verbatim>\<open>parser.parse_args()\<close> has produced \<open>a\<close>, which is also
  what the module-level name \<^verbatim>\<open>args\<close> is bound to from then on.
\<close>

definition main ::
  "('net, 'opt, 'ctx) externals \<Rightarrow> args \<Rightarrow> nprng \<Rightarrow> trng \<Rightarrow> world \<Rightarrow> world result" where
  "main ext a g_np g_torch w =
     (if \<not> (train_example a \<or> train_energy a)
      then Inl (RuntimeError ''You must specify at least one of train_example or train_energy.'', w)
      else (let model_path = ''models/'' @ output_name a @ ''.pkl'';
                w1 = log_io (Exists model_path) w
            in if model_path \<in> files w \<and> \<not> overwrite a
               then Inl (RuntimeError (''Output '' @ [CHR 0x27] @ model_path @ [CHR 0x27]
                      @ '' already exists. If you'' @ [CHR 0x27] @ ''re sure use --overwrite.''), w1)
               else (let w2 = (if model_path \<in> files w
                               then print_line (''Warning: output '' @ [CHR 0x60] @ model_path
                                      @ [CHR 0x27] @ '' already exists. Overwriting anyway.'') w1
                               else w1);
                         w3 = create_dirs (delete_run (output_name a) w2);
                         (dev, w4) = get_device ext w3
                     in run_training ext (Some a) a dev g_np g_torch w4)))"

section \<open>A small concrete instance\<close>

text \<open>
  A three-atom system with three frames and stand-ins for the libraries: the network is
  one scale factor, the force-field energy of a conformation is the sum of its
  coordinates, the regularizer clips at the upper threshold, the optimizer counts its
  steps, and the float division is the exact quotient (every quotient taken below is a
  binary64 value). The theorems below are instantiated on it.
\<close>

definition demo_traj :: traj where
  "demo_traj = \<lparr>n_atoms = 3,
     xyz = [[1, 0, 0, 0, 0, 0, 0, 0, 0], [0, 2, 0, 0, 0, 0, 0, 0, 0],
            [0, 0, 3, 0, 0, 0, 0, 0, 0]]\<rparr>"

definition demo_ext :: "(real, nat, unit) externals" where
  "demo_ext = \<lparr>
     cuda_is_available = False,
     float_div = (\<lambda>n f. case f of Finite64 v \<Rightarrow> Finite64 (real_of_int n / v)
                             | PosInf64 \<Rightarrow> Finite64 0 | NegInf64 \<Rightarrow> Finite64 0
                             | NaN64 \<Rightarrow> NaN64),
     md_load = (\<lambda>fs dcd pdb. if dcd = ''t.dcd'' \<and> pdb = ''p.pdb'' then Inr demo_traj
                               else Inl (ExternalError ''no such file'')),
     superpose_backbone = (\<lambda>t. t),
     composite_transform = (\<lambda>layers t d dev g. Inr (2, g)),
     torch_load = (\<lambda>fs path dev. if path \<in> fs then Inr 2 else Inl (ExternalError ''no such file'')),
     trainable_params = (\<lambda>c. 1),
     adamw = (\<lambda>c lr decay. Inr 0),
     warmup_cosine = (\<lambda>optimizer n_epochs lr1 mult n_warmup. Inr optimizer),
     openmm_simulation = (\<lambda>fs pdb. Inr ()),
     net_forward = (\<lambda>c training grad g x. Inr (map (map (\<lambda>v. c * v)) x, map (\<lambda>r. c) x, c, g)),
     net_inverse = (\<lambda>c training grad g z. Inr (map (map (\<lambda>v. v / c)) z, map (\<lambda>r. - c) z, c, g)),
     openmm_energy = (\<lambda>x ctx temp. Inr (map sum_list x)),
     regularize_energy = (\<lambda>es e_high e_max. map (\<lambda>e. min e e_high) es),
     backward_step = (\<lambda>optimizer c l epoch. Inr (Suc optimizer, c))\<rparr>"

definition demo_args :: args where
  "demo_args = \<lparr>pdb_path = ''p.pdb'', dcd_path = ''t.dcd'', output_name = ''run'',
     overwrite = False, epochs = 1, batch_size = 2, warmup_epochs = 1,
     init_lr = 1 / 1000, final_lr = 1 / 100000, weight_decay = 1 / 1000,
     dropout_fraction = 1 / 2, log_freq = 10, fold_validation = Finite64 2, load_network_arg = None,
     coupling_layers = 1, hidden_features = 4, hidden_layers = 1, spline_points = 8,
     is_affine = True, train_example = True, train_energy = True,
     example_weight = 3, energy_weight = 5, temperature = 298,
     energy_max = 1000, energy_high = 1\<rparr>"

definition demo_world :: world where
  "demo_world = \<lparr>files = {''p.pdb'', ''t.dcd''}, io = [], console = [], scalars = []\<rparr>"

definition demo_state :: "(real, nat, unit) run_state" where
  "demo_state = \<lparr>wld = demo_world, trj = demo_traj, n_dim = 9, net = 2, optim = 0,
     openmm_context = (), np_rng = (\<lambda>i. i), torch_rng = (\<lambda>i. 1),
     val_data = [[1, 0, 0, 0, 0, 0, 0, 0, 0], [0, 2, 0, 0, 0, 0, 0, 0, 0]],
     train_data = [[0, 0, 3, 0, 0, 0, 0, 0, 0], [0, 0, 0, 4, 0, 0, 0, 0, 0]],
     fixed_z = [[1, 1, 1]], fixed_coords = [],
     example_loss = None, energy_loss = None, loss = None,
     example_loss_val = None, energy_loss_val = None, loss_val = None,
     fixed_energy = None\<rparr>"



section \<open>What each block of the loop returns\<close>

text \<open>
  When a block returns, the state it returns is the state it was given with the listed
  locals reassigned; the values come from the library calls named in the lemma.
\<close>

lemma then_do_Inr: "then_do r f = Inr y \<longleftrightarrow> (\<exists>x. r = Inr x \<and> f x = Inr y)"
  by (cases r) (simp_all add: then_do_def)

lemma read_local_Inr: "read_local name v w = Inr x \<longleftrightarrow> v = Some x"
  by (cases v) (simp_all add: read_local_def)

lemma np_random_choice_Inr:
  assumes "np_random_choice g a sz = Inr (idx, g')"
  shows "idx = map (\<lambda>k. a ! (g k mod length a)) [0..<nat sz]"
    and "g' = advance (nat sz) g"
    and "length idx = nat sz"
    and "0 \<le> sz"
    and "\<forall>i \<in> set idx. i \<in> set a"
proof -
  from assms have nn: "\<not> sz < 0" and ne: "\<not> (a = [] \<and> 0 < sz)"
    by (auto simp: np_random_choice_def split: if_splits)
  from assms nn ne show idx: "idx = map (\<lambda>k. a ! (g k mod length a)) [0..<nat sz]"
    and "g' = advance (nat sz) g"
    by (simp_all add: np_random_choice_def)
  from idx show "length idx = nat sz" by simp
  from nn show "0 \<le> sz" by simp
  show "\<forall>i \<in> set idx. i \<in> set a"
  proof
    fix i assume "i \<in> set idx"
    with idx obtain k where k: "k < nat sz" and i: "i = a ! (g k mod length a)" by auto
    from k ne have "a \<noteq> []" by auto
    then have "g k mod length a < length a" by simp
    with i show "i \<in> set a" by simp
  qed
qed

lemma torch_normal_Inr:
  assumes "torch_normal mu sigma r c g = Inr (z, g')"
  shows "length z = nat r" and "\<forall>v \<in> set z. length v = nat c" and "0 \<le> r" and "0 \<le> c"
    and "z = map (\<lambda>i. map (\<lambda>j. mu + sigma * g (i * nat c + j)) [0..<nat c]) [0..<nat r]"
  using assms by (auto simp: torch_normal_def split: if_splits)

lemma example_block_Inr:
  assumes "example_block ext a s = Inr s1" and "train_example a"
  shows "\<exists>idx g' z z_jac nt tg.
           np_random_choice (np_rng s) [0..<length (train_data s)] (batch_size a) = Inr (idx, g')
         \<and> net_forward ext (net s) True True (torch_rng s) (map ((!) (train_data s)) idx)
             = Inr (z, z_jac, nt, tg)
         \<and> s1 = s\<lparr>np_rng := g', net := nt, torch_rng := tg,
                   example_loss := Some (fmul (Fin (example_weight a))
                      (fsub (fmul (Fin (1 / 2)) (torch_mean (sum_sq_rows z))) (torch_mean z_jac)))\<rparr>"
  using assms by (auto simp: example_block_def Let_def split: sum.splits prod.splits)

lemma example_block_off: "\<not> train_example a \<Longrightarrow> example_block ext a s = Inr s"
  by (simp add: example_block_def)

lemma energy_block_Inr:
  assumes "energy_block ext a s = Inr s2" and "train_energy a"
  shows "\<exists>z_batch tg1 x x_jac nt tg2 raw.
           torch_normal 0 1 (batch_size a) (n_dim s - 6) (torch_rng s) = Inr (z_batch, tg1)
         \<and> net_inverse ext (net s) True True tg1 z_batch = Inr (x, x_jac, nt, tg2)
         \<and> openmm_energy ext x (openmm_context s) (temperature a) = Inr raw
         \<and> s2 = s\<lparr>net := nt, torch_rng := tg2,
                   energy_loss := Some (fmul (Fin (energy_weight a))
                      (fsub (torch_mean (regularize_energy ext raw (energy_high a) (energy_max a)))
                            (torch_mean x_jac)))\<rparr>"
  using assms
  by (auto simp: energy_block_def get_energy_evaluator_def Let_def split: sum.splits prod.splits)

lemma energy_block_off: "\<not> train_energy a \<Longrightarrow> energy_block ext a s = Inr s"
  by (simp add: energy_block_def)

lemma combine_block_Inr:
  assumes "combine_block a s = Inr s3"
  shows "\<exists>l. s3 = s\<lparr>loss := Some l\<rparr>
          \<and> (if train_example a \<and> train_energy a
              then \<exists>l1 l2. example_loss s = Some l1 \<and> energy_loss s = Some l2 \<and> l = fadd l1 l2
              else if train_example a then example_loss s = Some l
              else energy_loss s = Some l)"
  using assms by (auto simp: combine_block_def then_do_Inr read_local_Inr split: if_splits)

lemma backward_block_Inr:
  assumes "backward_block ext epoch s = Inr s4"
  shows "\<exists>l optimizer nt. loss s = Some l
          \<and> backward_step ext (optim s) (net s) l epoch = Inr (optimizer, nt)
          \<and> s4 = s\<lparr>optim := optimizer, net := nt\<rparr>"
proof -
  from assms obtain l where l: "loss s = Some l"
    and c: "(case backward_step ext (optim s) (net s) l epoch of
               Inl e \<Rightarrow> Inl (e, wld s)
             | Inr (optimizer, nt) \<Rightarrow> Inr (s\<lparr>optim := optimizer, net := nt\<rparr>)) = Inr s4"
    by (auto simp: backward_block_def then_do_Inr read_local_Inr)
  from c show ?thesis
    by (cases "backward_step ext (optim s) (net s) l epoch") (auto simp: l)
qed


lemma log_train_losses_Inr:
  assumes "log_train_losses a epoch s = Inr s1"
  shows "\<exists>l. loss s = Some l
          \<and> (train_example a \<longrightarrow> example_loss s \<noteq> None)
          \<and> (train_energy a \<longrightarrow> energy_loss s \<noteq> None)
          \<and> s1 = s\<lparr>wld := (wld s)\<lparr>scalars := scalars (wld s)
                @ [(''Train/loss'', l, epoch)]
                @ (if train_example a then [(''Train/example'', the (example_loss s), epoch)] else [])
                @ (if train_energy a then [(''Train/energy'', the (energy_loss s), epoch)] else [])\<rparr>\<rparr>"
  using assms
  by (auto simp: log_train_losses_def then_do_Inr read_local_Inr add_scalar_def Let_def
           split: if_splits)

lemma validation_losses_Inr:
  assumes "validation_losses ext a s = Inr (s2, val_energies)"
  shows "\<exists>idx g' z z_jac nt1 tg1 z_val tg2 x x_jac nt2 tg3 raw.
           np_random_choice (np_rng s) [0..<length (val_data s)] (batch_size a) = Inr (idx, g')
         \<and> net_forward ext (net s) False False (torch_rng s) (map ((!) (val_data s)) idx)
             = Inr (z, z_jac, nt1, tg1)
         \<and> torch_normal 0 1 (batch_size a) (n_dim s - 6) tg1 = Inr (z_val, tg2)
         \<and> net_inverse ext nt1 False False tg2 z_val = Inr (x, x_jac, nt2, tg3)
         \<and> openmm_energy ext x (openmm_context s) (temperature a) = Inr raw
         \<and> val_energies = regularize_energy ext raw (energy_high a) (energy_max a)
         \<and> s2 = s\<lparr>np_rng := g', net := nt2, torch_rng := tg3,
              example_loss_val := Some (fmul (Fin (example_weight a))
                 (fsub (fmul (Fin (1 / 2)) (torch_mean (sum_sq_rows z))) (torch_mean z_jac))),
              energy_loss_val := Some (fmul (Fin (energy_weight a))
                 (fsub (torch_mean val_energies) (torch_mean x_jac))),
              loss_val := Some
                (if train_example a \<and> train_energy a
                 then fadd (fmul (Fin (example_weight a))
                        (fsub (fmul (Fin (1 / 2)) (torch_mean (sum_sq_rows z))) (torch_mean z_jac)))
                      (fmul (Fin (energy_weight a))
                        (fsub (torch_mean val_energies) (torch_mean x_jac)))
                 else if train_example a
                 then fmul (Fin (example_weight a))
                        (fsub (fmul (Fin (1 / 2)) (torch_mean (sum_sq_rows z))) (torch_mean z_jac))
                 else fmul (Fin (energy_weight a))
                        (fsub (torch_mean val_energies) (torch_mean x_jac)))\<rparr>"
  using assms
  by (auto simp: validation_losses_def get_energy_evaluator_def Let_def
           split: sum.splits prod.splits split del: if_split)

lemma log_validation_Inr:
  assumes "log_validation epoch val_energies s = Inr s3"
  shows "\<exists>l l1 l2 m. loss_val s = Some l \<and> example_loss_val s = Some l1
          \<and> energy_loss_val s = Some l2 \<and> torch_min val_energies = Inr m
          \<and> s3 = s\<lparr>wld := (wld s)\<lparr>scalars := scalars (wld s)
                @ [(''Validation/loss'', l, epoch), (''Validation/example'', l1, epoch),
                   (''Validation/energy'', l2, epoch),
                   (''Energies/mean_energy'', torch_mean val_energies, epoch),
                   (''Energies/median_energy'', torch_median val_energies, epoch),
                   (''Energies/minimum_energy'', m, epoch)]\<rparr>\<rparr>"
proof -
  from assms obtain l l1 l2 where l: "loss_val s = Some l" "example_loss_val s = Some l1"
      "energy_loss_val s = Some l2"
    and c: "(case torch_min val_energies of
               Inl e \<Rightarrow> Inl (e, add_scalar ''Energies/median_energy'' (torch_median val_energies) epoch
                  (add_scalar ''Energies/mean_energy'' (torch_mean val_energies) epoch
                    (add_scalar ''Validation/energy'' l2 epoch
                      (add_scalar ''Validation/example'' l1 epoch
                        (add_scalar ''Validation/loss'' l epoch (wld s))))))
             | Inr m \<Rightarrow> Inr (s\<lparr>wld := add_scalar ''Energies/minimum_energy'' m epoch
                  (add_scalar ''Energies/median_energy'' (torch_median val_energies) epoch
                  (add_scalar ''Energies/mean_energy'' (torch_mean val_energies) epoch
                    (add_scalar ''Validation/energy'' l2 epoch
                      (add_scalar ''Validation/example'' l1 epoch
                        (add_scalar ''Validation/loss'' l epoch (wld s))))))\<rparr>)) = Inr s3"
    by (auto simp: log_validation_def then_do_Inr read_local_Inr Let_def)
  from c show ?thesis
    by (cases "torch_min val_energies") (auto simp: l add_scalar_def)
qed

lemma fixed_block_Inr:
  assumes "fixed_block ext a epoch s = Inr s'"
  shows "\<exists>fixed_x fixed_x_jac nt tg raw.
           net_inverse ext (net s) False False (torch_rng s) (fixed_z s)
             = Inr (fixed_x, fixed_x_jac, nt, tg)
         \<and> openmm_energy ext fixed_x (openmm_context s) (temperature a) = Inr raw
         \<and> s' = s\<lparr>wld := (wld s)\<lparr>scalars := scalars (wld s)
                      @ [(''Energies/fixed_energy'', torch_mean raw, epoch)]\<rparr>,
                   net := nt, torch_rng := tg,
                   fixed_coords := fixed_coords s @ [fixed_x],
                   fixed_energy := Some (torch_mean raw)\<rparr>"
  using assms
  by (auto simp: fixed_block_def add_scalar_def split: sum.splits prod.splits)

lemma validate_log_Inr:
  assumes "validate_log ext a epoch s = Inr s'"
  shows "\<exists>s1 s2 val_energies s3.
           log_train_losses a epoch s = Inr s1
         \<and> validation_losses ext a s1 = Inr (s2, val_energies)
         \<and> log_validation epoch val_energies s2 = Inr s3
         \<and> fixed_block ext a epoch s3 = Inr s'"
  using assms by (auto simp: validate_log_def then_do_Inr)

lemma epoch_body_Inr:
  assumes "epoch_body ext a epoch s = Inr s'"
  shows "\<exists>s1 s2 s3 s4.
           example_block ext a s = Inr s1
         \<and> energy_block ext a s1 = Inr s2
         \<and> combine_block a s2 = Inr s3
         \<and> backward_block ext epoch s3 = Inr s4
         \<and> log_freq a \<noteq> 0
         \<and> (if epoch mod log_freq a = 0 then validate_log ext a epoch s4 = Inr s' else s' = s4)"
  using assms by (auto simp: epoch_body_def train_step_def then_do_Inr split: if_splits)

lemma train_step_epoch_body:
  assumes "epoch_body ext a epoch s = Inr s'"
  shows "\<exists>s4. train_step ext a epoch s = Inr s4 \<and> log_freq a \<noteq> 0
          \<and> (if epoch mod log_freq a = 0 then validate_log ext a epoch s4 = Inr s' else s' = s4)"
  using assms by (auto simp: epoch_body_def then_do_Inr split: if_splits)

lemma validate_log_frame:
  assumes "validate_log ext a epoch s = Inr s'"
  shows "example_loss s' = example_loss s" and "energy_loss s' = energy_loss s"
    and "loss s' = loss s" and "train_data s' = train_data s" and "val_data s' = val_data s"
    and "optim s' = optim s" and "n_dim s' = n_dim s"
    and "openmm_context s' = openmm_context s" and "fixed_z s' = fixed_z s"
    and "trj s' = trj s"
proof -
  from validate_log_Inr [OF assms] obtain s1 s2 val_energies s3 where
    a: "log_train_losses a epoch s = Inr s1" and
    b: "validation_losses ext a s1 = Inr (s2, val_energies)" and
    c: "log_validation epoch val_energies s2 = Inr s3" and
    d: "fixed_block ext a epoch s3 = Inr s'" by blast
  from log_train_losses_Inr [OF a] obtain l where a': "s1 = s\<lparr>wld := (wld s)\<lparr>scalars := scalars (wld s)
                @ [(''Train/loss'', l, epoch)]
                @ (if train_example a then [(''Train/example'', the (example_loss s), epoch)] else [])
                @ (if train_energy a then [(''Train/energy'', the (energy_loss s), epoch)] else [])\<rparr>\<rparr>"
    by blast
  have 1: "example_loss s1 = example_loss s \<and> energy_loss s1 = energy_loss s \<and> loss s1 = loss s
     \<and> train_data s1 = train_data s \<and> val_data s1 = val_data s \<and> optim s1 = optim s
     \<and> n_dim s1 = n_dim s \<and> openmm_context s1 = openmm_context s \<and> fixed_z s1 = fixed_z s
     \<and> trj s1 = trj s"
    by (simp add: a')
  from validation_losses_Inr [OF b] have 2: "example_loss s2 = example_loss s1 \<and> energy_loss s2 = energy_loss s1 \<and> loss s2 = loss s1
     \<and> train_data s2 = train_data s1 \<and> val_data s2 = val_data s1 \<and> optim s2 = optim s1
     \<and> n_dim s2 = n_dim s1 \<and> openmm_context s2 = openmm_context s1 \<and> fixed_z s2 = fixed_z s1
     \<and> trj s2 = trj s1"
    by (elim exE conjE) simp
  from log_validation_Inr [OF c] have 3: "example_loss s3 = example_loss s2 \<and> energy_loss s3 = energy_loss s2 \<and> loss s3 = loss s2
     \<and> train_data s3 = train_data s2 \<and> val_data s3 = val_data s2 \<and> optim s3 = optim s2
     \<and> n_dim s3 = n_dim s2 \<and> openmm_context s3 = openmm_context s2 \<and> fixed_z s3 = fixed_z s2
     \<and> trj s3 = trj s2"
    by (elim exE conjE) simp
  from fixed_block_Inr [OF d] have 4: "example_loss s' = example_loss s3 \<and> energy_loss s' = energy_loss s3 \<and> loss s' = loss s3
     \<and> train_data s' = train_data s3 \<and> val_data s' = val_data s3 \<and> optim s' = optim s3
     \<and> n_dim s' = n_dim s3 \<and> openmm_context s' = openmm_context s3 \<and> fixed_z s' = fixed_z s3
     \<and> trj s' = trj s3"
    by (elim exE conjE) simp
  from 1 2 3 4 show "example_loss s' = example_loss s" and "energy_loss s' = energy_loss s"
    and "loss s' = loss s" and "train_data s' = train_data s" and "val_data s' = val_data s"
    and "optim s' = optim s" and "n_dim s' = n_dim s"
    and "openmm_context s' = openmm_context s" and "fixed_z s' = fixed_z s"
    and "trj s' = trj s"
    by simp_all
qed

lemma example_block_frame:
  assumes "example_block ext a s = Inr s1"
  shows "energy_loss s1 = energy_loss s" and "loss s1 = loss s" and "optim s1 = optim s"
    and "wld s1 = wld s" and "train_data s1 = train_data s" and "val_data s1 = val_data s"
    and "n_dim s1 = n_dim s" and "openmm_context s1 = openmm_context s"
    and "fixed_z s1 = fixed_z s" and "fixed_coords s1 = fixed_coords s"
    and "example_loss_val s1 = example_loss_val s" and "energy_loss_val s1 = energy_loss_val s"
    and "loss_val s1 = loss_val s" and "fixed_energy s1 = fixed_energy s" and "trj s1 = trj s"
    and "\<not> train_example a \<Longrightarrow> s1 = s"
proof -
  have "train_example a \<or> \<not> train_example a" by simp
  then have "energy_loss s1 = energy_loss s \<and> loss s1 = loss s \<and> optim s1 = optim s
    \<and> wld s1 = wld s \<and> train_data s1 = train_data s \<and> val_data s1 = val_data s
    \<and> n_dim s1 = n_dim s \<and> openmm_context s1 = openmm_context s
    \<and> fixed_z s1 = fixed_z s \<and> fixed_coords s1 = fixed_coords s
    \<and> example_loss_val s1 = example_loss_val s \<and> energy_loss_val s1 = energy_loss_val s
    \<and> loss_val s1 = loss_val s \<and> fixed_energy s1 = fixed_energy s \<and> trj s1 = trj s"
  proof
    assume "train_example a"
    from example_block_Inr [OF assms this] show ?thesis by (elim exE conjE) simp
  next
    assume "\<not> train_example a"
    with assms show ?thesis by (simp add: example_block_off)
  qed
  then show "energy_loss s1 = energy_loss s" and "loss s1 = loss s" and "optim s1 = optim s"
    and "wld s1 = wld s" and "train_data s1 = train_data s" and "val_data s1 = val_data s"
    and "n_dim s1 = n_dim s" and "openmm_context s1 = openmm_context s"
    and "fixed_z s1 = fixed_z s" and "fixed_coords s1 = fixed_coords s"
    and "example_loss_val s1 = example_loss_val s" and "energy_loss_val s1 = energy_loss_val s"
    and "loss_val s1 = loss_val s" and "fixed_energy s1 = fixed_energy s" and "trj s1 = trj s"
    by simp_all
  show "\<not> train_example a \<Longrightarrow> s1 = s" using assms by (simp add: example_block_off)
qed

lemma energy_block_frame:
  assumes "energy_block ext a s = Inr s2"
  shows "example_loss s2 = example_loss s" and "loss s2 = loss s" and "optim s2 = optim s"
    and "wld s2 = wld s" and "train_data s2 = train_data s" and "val_data s2 = val_data s"
    and "n_dim s2 = n_dim s" and "openmm_context s2 = openmm_context s"
    and "fixed_z s2 = fixed_z s" and "fixed_coords s2 = fixed_coords s"
    and "example_loss_val s2 = example_loss_val s" and "energy_loss_val s2 = energy_loss_val s"
    and "loss_val s2 = loss_val s" and "fixed_energy s2 = fixed_energy s" and "trj s2 = trj s"
    and "np_rng s2 = np_rng s"
    and "\<not> train_energy a \<Longrightarrow> s2 = s"
proof -
  have "train_energy a \<or> \<not> train_energy a" by simp
  then have "example_loss s2 = example_loss s \<and> loss s2 = loss s \<and> optim s2 = optim s
    \<and> wld s2 = wld s \<and> train_data s2 = train_data s \<and> val_data s2 = val_data s
    \<and> n_dim s2 = n_dim s \<and> openmm_context s2 = openmm_context s
    \<and> fixed_z s2 = fixed_z s \<and> fixed_coords s2 = fixed_coords s
    \<and> example_loss_val s2 = example_loss_val s \<and> energy_loss_val s2 = energy_loss_val s
    \<and> loss_val s2 = loss_val s \<and> fixed_energy s2 = fixed_energy s \<and> trj s2 = trj s
    \<and> np_rng s2 = np_rng s"
  proof
    assume "train_energy a"
    from energy_block_Inr [OF assms this] show ?thesis by (elim exE conjE) simp
  next
    assume "\<not> train_energy a"
    with assms show ?thesis by (simp add: energy_block_off)
  qed
  then show "example_loss s2 = example_loss s" and "loss s2 = loss s" and "optim s2 = optim s"
    and "wld s2 = wld s" and "train_data s2 = train_data s" and "val_data s2 = val_data s"
    and "n_dim s2 = n_dim s" and "openmm_context s2 = openmm_context s"
    and "fixed_z s2 = fixed_z s" and "fixed_coords s2 = fixed_coords s"
    and "example_loss_val s2 = example_loss_val s" and "energy_loss_val s2 = energy_loss_val s"
    and "loss_val s2 = loss_val s" and "fixed_energy s2 = fixed_energy s" and "trj s2 = trj s"
    and "np_rng s2 = np_rng s"
    by simp_all
  show "\<not> train_energy a \<Longrightarrow> s2 = s" using assms by (simp add: energy_block_off)
qed

lemma combine_block_frame:
  assumes "combine_block a s = Inr s3"
  shows "example_loss s3 = example_loss s" and "energy_loss s3 = energy_loss s"
    and "optim s3 = optim s" and "net s3 = net s"
    and "wld s3 = wld s" and "train_data s3 = train_data s" and "val_data s3 = val_data s"
    and "n_dim s3 = n_dim s" and "openmm_context s3 = openmm_context s"
    and "fixed_z s3 = fixed_z s" and "fixed_coords s3 = fixed_coords s"
    and "example_loss_val s3 = example_loss_val s" and "energy_loss_val s3 = energy_loss_val s"
    and "loss_val s3 = loss_val s" and "fixed_energy s3 = fixed_energy s" and "trj s3 = trj s"
    and "np_rng s3 = np_rng s" and "torch_rng s3 = torch_rng s"
  using combine_block_Inr [OF assms] by auto

lemma backward_block_frame:
  assumes "backward_block ext epoch s = Inr s4"
  shows "example_loss s4 = example_loss s" and "energy_loss s4 = energy_loss s"
    and "loss s4 = loss s"
    and "wld s4 = wld s" and "train_data s4 = train_data s" and "val_data s4 = val_data s"
    and "n_dim s4 = n_dim s" and "openmm_context s4 = openmm_context s"
    and "fixed_z s4 = fixed_z s" and "fixed_coords s4 = fixed_coords s"
    and "example_loss_val s4 = example_loss_val s" and "energy_loss_val s4 = energy_loss_val s"
    and "loss_val s4 = loss_val s" and "fixed_energy s4 = fixed_energy s" and "trj s4 = trj s"
    and "np_rng s4 = np_rng s" and "torch_rng s4 = torch_rng s"
  using backward_block_Inr [OF assms] by auto

lemma mean_formula:
  "fmul (Fin w) (fsub (fmul (Fin (1 / 2)) (torch_mean (sum_sq_rows z))) (torch_mean z_jac))
     = (if z = [] \<or> z_jac = [] then NaN
        else Fin (w * (1 / 2 * ((\<Sum>r\<leftarrow>z. \<Sum>v\<leftarrow>r. v ^ 2) / real (length z))
                         - sum_list z_jac / real (length z_jac))))"
  by (simp add: torch_mean_def sum_sq_rows_def)

lemma energy_formula:
  "fmul (Fin w) (fsub (torch_mean es) (torch_mean x_jac))
     = (if es = [] \<or> x_jac = [] then NaN
        else Fin (w * (sum_list es / real (length es) - sum_list x_jac / real (length x_jac))))"
  by (simp add: torch_mean_def)

section \<open>Evaluating the concrete instance\<close>

lemmas demo_defs= demo_ext_def demo_args_def demo_state_def demo_world_def demo_traj_def

lemmas block_defs = epoch_body_def train_step_def then_do_def example_block_def energy_block_def
  combine_block_def backward_block_def validate_log_def log_train_losses_def
  validation_losses_def log_validation_def fixed_block_def read_local_def add_scalar_def
  get_energy_evaluator_def np_random_choice_def torch_normal_def torch_mean_def
  torch_median_def torch_min_def sum_sq_rows_def advance_def Let_def

lemma demo_epoch_runs: "\<exists>s'. epoch_body demo_ext demo_args 0 demo_state = Inr s'"
  by (simp add: block_defs demo_defs upt_rec)

section \<open>The training objectives\<close>

text \<open>
  C1. In every pass of the loop that completes with the example objective enabled, the
  batch is \<open>batch_size\<close> rows of the training split, each picked by its own draw
  (so a row may be picked twice), and the example loss left by the pass is the example
  weight times (half the mean over the batch of the sum of the squared latent
  components, minus the mean of the forward log-determinant), where the latent
  vectors and log-determinants are what \<open>forward\<close> returned on that batch in
  training mode. The mean of an empty tensor is \<open>NaN\<close>.
\<close>

theorem example_loss_of_step:
  assumes "train_example a" and "epoch_body ext a epoch s = Inr s'"
  shows "\<exists>index_batch g' z z_jac nt tg.
      np_random_choice (np_rng s) [0..<length (train_data s)] (batch_size a) = Inr (index_batch, g')
    \<and> index_batch = map (\<lambda>k. np_rng s k mod length (train_data s)) [0..<nat (batch_size a)]
    \<and> (\<forall>i \<in> set index_batch. i < length (train_data s))
    \<and> net_forward ext (net s) True True (torch_rng s) (map ((!) (train_data s)) index_batch)
         = Inr (z, z_jac, nt, tg)
    \<and> example_loss s' = Some
         (if z = [] \<or> z_jac = [] then NaN
          else Fin (example_weight a
                 * (1 / 2 * ((\<Sum>r\<leftarrow>z. \<Sum>v\<leftarrow>r. v ^ 2) / real (length z))
                    - sum_list z_jac / real (length z_jac))))"
proof -
  from epoch_body_Inr [OF assms(2)] obtain s1 s2 s3 s4 where
    b1: "example_block ext a s = Inr s1" and b2: "energy_block ext a s1 = Inr s2" and
    b3: "combine_block a s2 = Inr s3" and b4: "backward_block ext epoch s3 = Inr s4" and
    tail: "if epoch mod log_freq a = 0 then validate_log ext a epoch s4 = Inr s' else s' = s4"
    by blast
  from example_block_Inr [OF b1 assms(1)] obtain idx g' z z_jac nt tg where
    ch: "np_random_choice (np_rng s) [0..<length (train_data s)] (batch_size a) = Inr (idx, g')" and
    fw: "net_forward ext (net s) True True (torch_rng s) (map ((!) (train_data s)) idx)
           = Inr (z, z_jac, nt, tg)" and
    s1: "s1 = s\<lparr>np_rng := g', net := nt, torch_rng := tg,
                 example_loss := Some (fmul (Fin (example_weight a))
                    (fsub (fmul (Fin (1 / 2)) (torch_mean (sum_sq_rows z))) (torch_mean z_jac)))\<rparr>"
    by blast
  have in_range: "\<forall>i \<in> set idx. i < length (train_data s)"
    using np_random_choice_Inr(5) [OF ch] by simp
  have idx: "idx = map (\<lambda>k. np_rng s k mod length (train_data s)) [0..<nat (batch_size a)]"
  proof (cases "train_data s = []")
    case True
    with ch have "\<not> 0 < batch_size a"
      by (auto simp: np_random_choice_def split: if_splits)
    with np_random_choice_Inr(1) [OF ch] show ?thesis by simp
  next
    case False
    then have "\<And>k. np_rng s k mod length (train_data s) < length (train_data s)" by simp
    with np_random_choice_Inr(1) [OF ch] show ?thesis by simp
  qed
  have "example_loss s' = example_loss s4"
    using tail validate_log_frame(1) [of ext a epoch s4 s'] by (auto split: if_splits)
  also have "\<dots> = example_loss s1"
    by (simp add: backward_block_frame(1) [OF b4] combine_block_frame(1) [OF b3]
          energy_block_frame(1) [OF b2])
  finally have "example_loss s' = Some
         (if z = [] \<or> z_jac = [] then NaN
          else Fin (example_weight a
                 * (1 / 2 * ((\<Sum>r\<leftarrow>z. \<Sum>v\<leftarrow>r. v ^ 2) / real (length z))
                    - sum_list z_jac / real (length z_jac))))"
    by (simp only: s1 mean_formula) simp
  with ch idx in_range fw show ?thesis by blast
qed

theorem example_loss_of_step_witness:
  "train_example demo_args
   \<and> (\<exists>s'. epoch_body demo_ext demo_args 0 demo_state = Inr s' \<and> example_loss s' = Some (Fin 69))"
proof -
  have t: "train_example demo_args" by (simp add: demo_args_def)
  from demo_epoch_runs obtain s' where e: "epoch_body demo_ext demo_args 0 demo_state = Inr s'" ..
  from example_loss_of_step [OF t e] obtain index_batch g' z z_jac nt tg where
    idx: "index_batch = map (\<lambda>k. np_rng demo_state k mod length (train_data demo_state))
            [0..<nat (batch_size demo_args)]" and
    fw: "net_forward demo_ext (net demo_state) True True (torch_rng demo_state)
           (map ((!) (train_data demo_state)) index_batch) = Inr (z, z_jac, nt, tg)" and
    l: "example_loss s' = Some
         (if z = [] \<or> z_jac = [] then NaN
          else Fin (example_weight demo_args
                 * (1 / 2 * ((\<Sum>r\<leftarrow>z. \<Sum>v\<leftarrow>r. v ^ 2) / real (length z))
                    - sum_list z_jac / real (length z_jac))))"
    by blast
  from idx have idx': "index_batch = [0, 1]" by (simp add: demo_defs upt_rec)
  from fw have z: "z = [[0, 0, 6, 0, 0, 0, 0, 0, 0], [0, 0, 0, 8, 0, 0, 0, 0, 0]]" "z_jac = [2, 2]"
    by (auto simp add: idx' demo_defs)
  from l have "example_loss s' = Some (Fin 69)" by (simp add: z demo_args_def)
  with t e show ?thesis by blast
qed

text \<open>
  C2. In every pass of the loop that completes with the energy objective enabled, the
  latent batch is \<open>batch_size\<close> rows of \<open>n_dim - 6\<close> fresh draws of torch's
  generator with mean 0 and deviation 1, the conformations are what \<open>inverse\<close> returned
  on it, every energy entering the loss is the force-field energy passed through
  \<open>regularize_energy\<close> with the configured \<open>energy_high\<close> and \<open>energy_max\<close>, and the
  energy loss left by the pass is the energy weight times (the mean of those
  regularized energies minus the mean of the inverse log-determinant).
\<close>

theorem energy_loss_of_step:
  assumes "train_energy a" and "epoch_body ext a epoch s = Inr s'"
  shows "\<exists>s1 z_batch tg1 x x_jac nt tg2 raw energies.
      example_block ext a s = Inr s1
    \<and> torch_normal 0 1 (batch_size a) (n_dim s - 6) (torch_rng s1) = Inr (z_batch, tg1)
    \<and> z_batch = map (\<lambda>i. map (\<lambda>j. torch_rng s1 (i * nat (n_dim s - 6) + j))
                               [0..<nat (n_dim s - 6)]) [0..<nat (batch_size a)]
    \<and> length z_batch = nat (batch_size a)
    \<and> (\<forall>r \<in> set z_batch. length r = nat (n_dim s - 6))
    \<and> net_inverse ext (net s1) True True tg1 z_batch = Inr (x, x_jac, nt, tg2)
    \<and> openmm_energy ext x (openmm_context s) (temperature a) = Inr raw
    \<and> energies = regularize_energy ext raw (energy_high a) (energy_max a)
    \<and> energy_loss s' = Some
         (if energies = [] \<or> x_jac = [] then NaN
          else Fin (energy_weight a
                 * (sum_list energies / real (length energies)
                    - sum_list x_jac / real (length x_jac))))"
proof -
  from epoch_body_Inr [OF assms(2)] obtain s1 s2 s3 s4 where
    b1: "example_block ext a s = Inr s1" and b2: "energy_block ext a s1 = Inr s2" and
    b3: "combine_block a s2 = Inr s3" and b4: "backward_block ext epoch s3 = Inr s4" and
    tail: "if epoch mod log_freq a = 0 then validate_log ext a epoch s4 = Inr s' else s' = s4"
    by blast
  from energy_block_Inr [OF b2 assms(1)] obtain z_batch tg1 x x_jac nt tg2 raw where
    tn: "torch_normal 0 1 (batch_size a) (n_dim s1 - 6) (torch_rng s1) = Inr (z_batch, tg1)" and
    inv: "net_inverse ext (net s1) True True tg1 z_batch = Inr (x, x_jac, nt, tg2)" and
    en: "openmm_energy ext x (openmm_context s1) (temperature a) = Inr raw" and
    s2: "s2 = s1\<lparr>net := nt, torch_rng := tg2,
                   energy_loss := Some (fmul (Fin (energy_weight a))
                      (fsub (torch_mean (regularize_energy ext raw (energy_high a) (energy_max a)))
                            (torch_mean x_jac)))\<rparr>"
    by blast
  note f1 = example_block_frame [OF b1]
  from tn have tn': "torch_normal 0 1 (batch_size a) (n_dim s - 6) (torch_rng s1) = Inr (z_batch, tg1)"
    by (simp add: f1)
  from en have en': "openmm_energy ext x (openmm_context s) (temperature a) = Inr raw"
    by (simp add: f1)
  have zb: "z_batch = map (\<lambda>i. map (\<lambda>j. torch_rng s1 (i * nat (n_dim s - 6) + j))
                               [0..<nat (n_dim s - 6)]) [0..<nat (batch_size a)]"
    using torch_normal_Inr(5) [OF tn'] by simp
  have "energy_loss s' = energy_loss s4"
    using tail validate_log_frame(2) [of ext a epoch s4 s'] by (auto split: if_splits)
  also have "\<dots> = energy_loss s2"
    by (simp add: backward_block_frame(2) [OF b4] combine_block_frame(2) [OF b3])
  finally have "energy_loss s' = Some
         (if regularize_energy ext raw (energy_high a) (energy_max a) = [] \<or> x_jac = [] then NaN
          else Fin (energy_weight a
                 * (sum_list (regularize_energy ext raw (energy_high a) (energy_max a))
                      / real (length (regularize_energy ext raw (energy_high a) (energy_max a)))
                    - sum_list x_jac / real (length x_jac))))"
    by (simp only: s2 energy_formula) simp
  with b1 tn' zb torch_normal_Inr(1,2) [OF tn'] inv en' show ?thesis by blast
qed

theorem energy_loss_of_step_witness:
  "train_energy demo_args
   \<and> (\<exists>s'. epoch_body demo_ext demo_args 0 demo_state = Inr s' \<and> energy_loss s' = Some (Fin 15))"
proof -
  have t: "train_energy demo_args" by (simp add: demo_args_def)
  from demo_epoch_runs obtain s' where e: "epoch_body demo_ext demo_args 0 demo_state = Inr s'" ..
  from energy_loss_of_step [OF t e] obtain s1 z_batch tg1 x x_jac nt tg2 raw energies where
    b1: "example_block demo_ext demo_args demo_state = Inr s1" and
    zb: "z_batch = map (\<lambda>i. map (\<lambda>j. torch_rng s1 (i * nat (n_dim demo_state - 6) + j))
                               [0..<nat (n_dim demo_state - 6)]) [0..<nat (batch_size demo_args)]" and
    inv: "net_inverse demo_ext (net s1) True True tg1 z_batch = Inr (x, x_jac, nt, tg2)" and
    en: "openmm_energy demo_ext x (openmm_context demo_state) (temperature demo_args) = Inr raw" and
    reg: "energies = regularize_energy demo_ext raw (energy_high demo_args) (energy_max demo_args)" and
    l: "energy_loss s' = Some
         (if energies = [] \<or> x_jac = [] then NaN
          else Fin (energy_weight demo_args
                 * (sum_list energies / real (length energies)
                    - sum_list x_jac / real (length x_jac))))"
    by blast
  from b1 have s1: "torch_rng s1 = (\<lambda>i. 1)" "net s1 = 2"
    by (auto simp add: block_defs demo_defs upt_rec)
  from zb have zb': "z_batch = [[1, 1, 1], [1, 1, 1]]"
    by (simp add: s1 demo_defs upt_rec)
  from inv have x: "x = [[1 / 2, 1 / 2, 1 / 2], [1 / 2, 1 / 2, 1 / 2]]" "x_jac = [- 2, - 2]"
    by (auto simp add: zb' s1 demo_defs)
  from en have raw: "raw = [3 / 2, 3 / 2]" by (auto simp add: x demo_defs)
  from reg have energies: "energies = [1, 1]" by (simp add: raw demo_defs)
  from l have "energy_loss s' = Some (Fin 15)" by (simp add: energies x demo_args_def)
  with t e show ?thesis by blast
qed

lemma fadd_cases:
  "fadd l1 l2 = (case l1 of
                   Fin x \<Rightarrow> (case l2 of Fin y \<Rightarrow> Fin (x + y) | NaN \<Rightarrow> NaN)
                 | NaN \<Rightarrow> NaN)"
  by (cases l1; cases l2) simp_all

text \<open>
  C3. In every pass of the loop that completes, the loss handed to the backward pass and
  the optimizer is the sum of the example loss and the energy loss when both objectives
  are enabled (their real sum when both are finite, \<open>NaN\<close> when either is), the
  example loss alone when only the example objective is enabled, and the energy loss
  alone when only the energy objective is enabled.
\<close>

theorem combined_loss_of_step:
  assumes "epoch_body ext a epoch s = Inr s'"
  shows "\<exists>l nt nt'. loss s' = Some l
    \<and> backward_step ext (optim s) nt l epoch = Inr (optim s', nt')
    \<and> (train_example a \<and> train_energy a \<longrightarrow>
         (\<exists>l1 l2. example_loss s' = Some l1 \<and> energy_loss s' = Some l2
            \<and> l = (case l1 of
                  Fin x \<Rightarrow> (case l2 of Fin y \<Rightarrow> Fin (x + y) | NaN \<Rightarrow> NaN)
                | NaN \<Rightarrow> NaN)))
    \<and> (train_example a \<and> \<not> train_energy a \<longrightarrow> example_loss s' = Some l)
    \<and> (\<not> train_example a \<and> train_energy a \<longrightarrow> energy_loss s' = Some l)"
proof -
  from epoch_body_Inr [OF assms] obtain s1 s2 s3 s4 where
    b1: "example_block ext a s = Inr s1" and b2: "energy_block ext a s1 = Inr s2" and
    b3: "combine_block a s2 = Inr s3" and b4: "backward_block ext epoch s3 = Inr s4" and
    tail: "if epoch mod log_freq a = 0 then validate_log ext a epoch s4 = Inr s' else s' = s4"
    by blast
  from combine_block_Inr [OF b3] obtain l where
    s3: "s3 = s2\<lparr>loss := Some l\<rparr>" and
    c: "if train_example a \<and> train_energy a
        then \<exists>l1 l2. example_loss s2 = Some l1 \<and> energy_loss s2 = Some l2 \<and> l = fadd l1 l2
        else if train_example a then example_loss s2 = Some l
        else energy_loss s2 = Some l"
    by blast
  from backward_block_Inr [OF b4] obtain l' optimizer nt' where
    "loss s3 = Some l'" and
    bw: "backward_step ext (optim s3) (net s3) l' epoch = Inr (optimizer, nt')" and
    s4: "s4 = s3\<lparr>optim := optimizer, net := nt'\<rparr>"
    by blast
  then have l': "l' = l" by (simp add: s3)
  have o3: "optim s3 = optim s"
    by (simp add: combine_block_frame(3) [OF b3] energy_block_frame(3) [OF b2]
          example_block_frame(3) [OF b1])
  have keep: "loss s' = loss s4 \<and> example_loss s' = example_loss s4
      \<and> energy_loss s' = energy_loss s4 \<and> optim s' = optim s4"
    using tail validate_log_frame(1,2,3,6) [of ext a epoch s4 s'] by (auto split: if_splits)
  have e4: "example_loss s4 = example_loss s2" "energy_loss s4 = energy_loss s2"
    by (simp_all add: s4 s3)
  have "loss s' = Some l" using keep by (simp add: s4 s3)
  moreover have "backward_step ext (optim s) (net s3) l epoch = Inr (optim s', nt')"
    using bw keep by (simp add: o3 l' s4)
  moreover have "train_example a \<and> train_energy a \<longrightarrow>
         (\<exists>l1 l2. example_loss s' = Some l1 \<and> energy_loss s' = Some l2
            \<and> l = (case l1 of
                  Fin x \<Rightarrow> (case l2 of Fin y \<Rightarrow> Fin (x + y) | NaN \<Rightarrow> NaN)
                | NaN \<Rightarrow> NaN))"
    using c keep e4 by (auto simp: fadd_cases)
  moreover have "train_example a \<and> \<not> train_energy a \<longrightarrow> example_loss s' = Some l"
    using c keep e4 by auto
  moreover have "\<not> train_example a \<and> train_energy a \<longrightarrow> energy_loss s' = Some l"
    using c keep e4 by auto
  ultimately show ?thesis by blast
qed

theorem combined_loss_of_step_witness:
  "\<exists>s'. epoch_body demo_ext demo_args 0 demo_state = Inr s' \<and> loss s' = Some (Fin 84)
     \<and> example_loss s' = Some (Fin 69) \<and> energy_loss s' = Some (Fin 15)"
proof -
  have t: "train_example demo_args \<and> train_energy demo_args" by (simp add: demo_args_def)
  from demo_epoch_runs obtain s' where e: "epoch_body demo_ext demo_args 0 demo_state = Inr s'" ..
  from combined_loss_of_step [OF e] t obtain l l1 l2 where
    l: "loss s' = Some l" "example_loss s' = Some l1" "energy_loss s' = Some l2"
       "l = (case l1 of
                  Fin x \<Rightarrow> (case l2 of Fin y \<Rightarrow> Fin (x + y) | NaN \<Rightarrow> NaN)
                | NaN \<Rightarrow> NaN)"
    by blast
  from e have v: "example_loss s' = Some (Fin 69)" "energy_loss s' = Some (Fin 15)"
    by (auto simp add: block_defs demo_defs upt_rec)
  from l v have "l1 = Fin 69" "l2 = Fin 15" by simp_all
  with l have "loss s' = Some (Fin 84)" by simp
  with e v show ?thesis by blast
qed

section \<open>The checks before the run\<close>

text \<open>
  C4. With both objectives disabled the script raises at once and leaves the world as it
  found it: no path was probed, removed or created, no writer, trajectory, network or
  force-field context was made, nothing was logged, and no training took place.
\<close>

theorem both_objectives_disabled:
  assumes "\<not> train_example a" and "\<not> train_energy a"
  shows "main ext a g_np g_torch w
           = Inl (RuntimeError ''You must specify at least one of train_example or train_energy.'', w)"
  using assms by (simp add: main_def)

theorem both_objectives_disabled_witness:
  "\<not> train_example (demo_args\<lparr>train_example := False, train_energy := False\<rparr>)
   \<and> \<not> train_energy (demo_args\<lparr>train_example := False, train_energy := False\<rparr>)
   \<and> main demo_ext (demo_args\<lparr>train_example := False, train_energy := False\<rparr>)
         (\<lambda>i. i) (\<lambda>i. 1) demo_world
       = Inl (RuntimeError ''You must specify at least one of train_example or train_energy.'',
              demo_world)
   \<and> io demo_world = [] \<and> scalars demo_world = []"
  using both_objectives_disabled
    [of "demo_args\<lparr>train_example := False, train_energy := False\<rparr>" demo_ext
        "\<lambda>i. i" "\<lambda>i. 1" demo_world]
  by (simp add: demo_world_def)

text \<open>
  C5. When \<^verbatim>\<open>models/<output-name>.pkl\<close> exists and \<^verbatim>\<open>--overwrite\<close> is not given,
  the script raises before \<^verbatim>\<open>delete_run\<close>, \<^verbatim>\<open>create_dirs\<close> and
  \<^verbatim>\<open>run_training\<close>: the set of existing paths is unchanged, nothing is logged or
  printed, and the only file-system operation is the existence test of that path.
\<close>

theorem existing_output_refused:
  assumes "''models/'' @ output_name a @ ''.pkl'' \<in> files w" and "\<not> overwrite a"
  shows "\<exists>msg w'. main ext a g_np g_torch w = Inl (RuntimeError msg, w')
     \<and> files w' = files w \<and> scalars w' = scalars w \<and> console w' = console w
     \<and> (if train_example a \<or> train_energy a
         then io w' = io w @ [Exists (''models/'' @ output_name a @ ''.pkl'')]
         else io w' = io w)"
  using assms by (simp add: main_def Let_def log_io_def)

theorem existing_output_refused_witness:
  "''models/'' @ output_name demo_args @ ''.pkl'' \<in> files (demo_world\<lparr>files := {''models/run.pkl''}\<rparr>)
   \<and> \<not> overwrite demo_args
   \<and> (\<exists>msg w'. main demo_ext demo_args (\<lambda>i. i) (\<lambda>i. 1) (demo_world\<lparr>files := {''models/run.pkl''}\<rparr>)
          = Inl (RuntimeError msg, w')
        \<and> files w' = {''models/run.pkl''} \<and> scalars w' = [] \<and> io w' = [Exists ''models/run.pkl''])"
proof -
  have 1: "''models/'' @ output_name demo_args @ ''.pkl'' \<in> files (demo_world\<lparr>files := {''models/run.pkl''}\<rparr>)"
    by (simp add: demo_args_def)
  have 2: "\<not> overwrite demo_args" by (simp add: demo_args_def)
  from existing_output_refused [OF 1 2, of demo_ext "\<lambda>i. i" "\<lambda>i. 1"] obtain msg w' where
    m: "main demo_ext demo_args (\<lambda>i. i) (\<lambda>i. 1) (demo_world\<lparr>files := {''models/run.pkl''}\<rparr>)
          = Inl (RuntimeError msg, w')" and
    f: "files w' = files (demo_world\<lparr>files := {''models/run.pkl''}\<rparr>)"
       "scalars w' = scalars (demo_world\<lparr>files := {''models/run.pkl''}\<rparr>)" and
    i: "if train_example demo_args \<or> train_energy demo_args
        then io w' = io (demo_world\<lparr>files := {''models/run.pkl''}\<rparr>)
                       @ [Exists (''models/'' @ output_name demo_args @ ''.pkl'')]
        else io w' = io (demo_world\<lparr>files := {''models/run.pkl''}\<rparr>)"
    by blast
  from f have "files w' = {''models/run.pkl''}" "scalars w' = []" by (simp_all add: demo_world_def)
  moreover from i have "io w' = [Exists ''models/run.pkl'']" by (simp add: demo_world_def demo_args_def)
  ultimately show ?thesis using 1 2 m by blast
qed

section \<open>Loading the trajectory\<close>

text \<open>
  C9. The result of \<^verbatim>\<open>load_trajectory\<close> does not depend on its two parameters: it
  loads the files named by the module-level \<^verbatim>\<open>args\<close>, whatever paths it is called with.
\<close>

theorem load_trajectory_ignores_parameters:
  "load_trajectory ext global_args pdb dcd w = load_trajectory ext global_args pdb' dcd' w
   \<and> load_trajectory ext (Some g) pdb dcd w
       = (case md_load ext (files w) (dcd_path g) (pdb_path g) of
            Inl e \<Rightarrow> Inl (e, log_io (LoadTrajectory (dcd_path g) (pdb_path g))
                               (print_line ''Loading trajectory'' w))
          | Inr t \<Rightarrow> Inr (superpose_backbone ext t,
                           log_io (LoadTrajectory (dcd_path g) (pdb_path g))
                             (print_line ''Loading trajectory'' w)))"
  by (simp add: load_trajectory_def Let_def)

theorem load_trajectory_ignores_parameters_witness:
  "load_trajectory demo_ext (Some demo_args) ''other.pdb'' ''other.dcd'' demo_world
     = load_trajectory demo_ext (Some demo_args) ''p.pdb'' ''t.dcd'' demo_world
   \<and> (\<exists>w'. load_trajectory demo_ext (Some demo_args) ''other.pdb'' ''other.dcd'' demo_world
             = Inr (demo_traj, w')
           \<and> io w' = [LoadTrajectory ''t.dcd'' ''p.pdb''])
   \<and> md_load demo_ext (files demo_world) ''other.dcd'' ''other.pdb''
       = Inl (ExternalError ''no such file'')"
proof -
  note t = load_trajectory_ignores_parameters
    [of demo_ext "Some demo_args" "''other.pdb''" "''other.dcd''" demo_world "''p.pdb''" "''t.dcd''" demo_args]
  from t have same: "load_trajectory demo_ext (Some demo_args) ''other.pdb'' ''other.dcd'' demo_world
     = load_trajectory demo_ext (Some demo_args) ''p.pdb'' ''t.dcd'' demo_world"
    by (rule conjunct1)
  have md: "md_load demo_ext (files demo_world) (dcd_path demo_args) (pdb_path demo_args) = Inr demo_traj"
    by (simp add: demo_ext_def demo_args_def)
  have sp: "superpose_backbone demo_ext demo_traj = demo_traj" by (simp add: demo_ext_def)
  from conjunct2 [OF t] have "load_trajectory demo_ext (Some demo_args) ''other.pdb'' ''other.dcd'' demo_world
     = Inr (demo_traj, log_io (LoadTrajectory (dcd_path demo_args) (pdb_path demo_args))
              (print_line ''Loading trajectory'' demo_world))"
    by (simp only: md sp sum.case)
  moreover have "io (log_io (LoadTrajectory (dcd_path demo_args) (pdb_path demo_args))
              (print_line ''Loading trajectory'' demo_world)) = [LoadTrajectory ''t.dcd'' ''p.pdb'']"
    by (simp add: log_io_def print_line_def demo_world_def demo_args_def)
  moreover have "md_load demo_ext (files demo_world) ''other.dcd'' ''other.pdb''
       = Inl (ExternalError ''no such file'')"
    by (simp add: demo_ext_def)
  ultimately show ?thesis using same by blast
qed

section \<open>Validation and logging in the loop\<close>

lemma train_step_Inr:
  assumes "train_step ext a epoch s = Inr s4"
  shows "\<exists>s1 s2 s3. example_block ext a s = Inr s1 \<and> energy_block ext a s1 = Inr s2
          \<and> combine_block a s2 = Inr s3 \<and> backward_block ext epoch s3 = Inr s4"
  using assms by (auto simp: train_step_def then_do_Inr)

lemma train_step_frame:
  assumes "train_step ext a epoch s = Inr s4"
  shows "wld s4 = wld s" and "train_data s4 = train_data s" and "val_data s4 = val_data s"
    and "n_dim s4 = n_dim s" and "openmm_context s4 = openmm_context s"
    and "fixed_z s4 = fixed_z s" and "fixed_coords s4 = fixed_coords s"
    and "example_loss_val s4 = example_loss_val s" and "energy_loss_val s4 = energy_loss_val s"
    and "loss_val s4 = loss_val s" and "fixed_energy s4 = fixed_energy s" and "trj s4 = trj s"
    and "loss s4 \<noteq> None"
    and "train_example a \<Longrightarrow> example_loss s4 \<noteq> None"
    and "train_energy a \<Longrightarrow> energy_loss s4 \<noteq> None"
proof -
  from train_step_Inr [OF assms] obtain s1 s2 s3 where
    b1: "example_block ext a s = Inr s1" and b2: "energy_block ext a s1 = Inr s2" and
    b3: "combine_block a s2 = Inr s3" and b4: "backward_block ext epoch s3 = Inr s4"
    by blast
  note f1 = example_block_frame [OF b1] and f2 = energy_block_frame [OF b2]
    and f3 = combine_block_frame [OF b3] and f4 = backward_block_frame [OF b4]
  show "wld s4 = wld s" by (simp add: f1 f2 f3 f4)
  show "train_data s4 = train_data s" by (simp add: f1 f2 f3 f4)
  show "val_data s4 = val_data s" by (simp add: f1 f2 f3 f4)
  show "n_dim s4 = n_dim s" by (simp add: f1 f2 f3 f4)
  show "openmm_context s4 = openmm_context s" by (simp add: f1 f2 f3 f4)
  show "fixed_z s4 = fixed_z s" by (simp add: f1 f2 f3 f4)
  show "fixed_coords s4 = fixed_coords s" by (simp add: f1 f2 f3 f4)
  show "example_loss_val s4 = example_loss_val s" by (simp add: f1 f2 f3 f4)
  show "energy_loss_val s4 = energy_loss_val s" by (simp add: f1 f2 f3 f4)
  show "loss_val s4 = loss_val s" by (simp add: f1 f2 f3 f4)
  show "fixed_energy s4 = fixed_energy s" by (simp add: f1 f2 f3 f4)
  show "trj s4 = trj s" by (simp add: f1 f2 f3 f4)
  from backward_block_Inr [OF b4] have "loss s3 \<noteq> None" by auto
  then show "loss s4 \<noteq> None" by (simp add: f4)
  show "example_loss s4 \<noteq> None" if "train_example a"
    using example_block_Inr [OF b1 that] by (auto simp: f2 f3 f4)
  show "energy_loss s4 \<noteq> None" if "train_energy a"
    using energy_block_Inr [OF b2 that] by (auto simp: f3 f4)
qed

lemma demo_epoch_one_runs: "\<exists>s'. epoch_body demo_ext demo_args 1 demo_state = Inr s'"
  by (simp add: block_defs demo_defs upt_rec)











section \<open>The locals read after the loop\<close>

lemma initialise_Inr:
  assumes "initialise ext global_args a dev g_np g_torch w = Inr s"
  shows "\<exists>tr w2 nt g1 optimizer ctx w6 fz g2 n_val.
           load_trajectory ext global_args (pdb_path a) (dcd_path a)
             (create_tensorboard (output_name a) w) = Inr (tr, w2)
         \<and> fold_validation a \<noteq> Finite64 0
         \<and> py_int (float_div ext (int (length (xyz tr))) (fold_validation a)) = Inr n_val
         \<and> torch_normal 0 1 1 (int (n_atoms tr) * 3 - 6) g1 = Inr (fz, g2)
         \<and> s = \<lparr>wld = w6, trj = tr\<lparr>xyz := fst (np_random_shuffle g_np (xyz tr))\<rparr>,
                n_dim = int (n_atoms tr) * 3,
                net = nt, optim = optimizer, openmm_context = ctx,
                np_rng = snd (np_random_shuffle g_np (xyz tr)), torch_rng = g2,
                val_data = slice_to n_val (fst (np_random_shuffle g_np (xyz tr))),
                train_data = slice_from n_val (fst (np_random_shuffle g_np (xyz tr))),
                fixed_z = fz, fixed_coords = [],
                example_loss = None, energy_loss = None, loss = None,
                example_loss_val = None, energy_loss_val = None,
                loss_val = None, fixed_energy = None\<rparr>"
  using assms
  by (auto simp: initialise_def Let_def split: sum.splits prod.splits if_splits)

lemma validate_log_defined:
  assumes "validate_log ext a epoch s = Inr s'"
  shows "loss_val s' \<noteq> None" and "example_loss_val s' \<noteq> None"
    and "energy_loss_val s' \<noteq> None" and "fixed_energy s' \<noteq> None" and "fixed_coords s' \<noteq> []"
proof -
  from validate_log_Inr [OF assms] obtain s1 s2 val_energies s3 where
    b: "validation_losses ext a s1 = Inr (s2, val_energies)" and
    c: "log_validation epoch val_energies s2 = Inr s3" and
    d: "fixed_block ext a epoch s3 = Inr s'" by blast
  from validation_losses_Inr [OF b] have 2: "loss_val s2 \<noteq> None \<and> example_loss_val s2 \<noteq> None
      \<and> energy_loss_val s2 \<noteq> None"
    by (elim exE conjE) simp
  from log_validation_Inr [OF c] have 3: "loss_val s3 = loss_val s2
      \<and> example_loss_val s3 = example_loss_val s2 \<and> energy_loss_val s3 = energy_loss_val s2"
    by (elim exE conjE) simp
  from fixed_block_Inr [OF d] have 4: "loss_val s' = loss_val s3
      \<and> example_loss_val s' = example_loss_val s3 \<and> energy_loss_val s' = energy_loss_val s3
      \<and> fixed_energy s' \<noteq> None \<and> fixed_coords s' \<noteq> []"
    by (elim exE conjE) simp
  from 2 3 4 show "loss_val s' \<noteq> None" and "example_loss_val s' \<noteq> None"
    and "energy_loss_val s' \<noteq> None" and "fixed_energy s' \<noteq> None" and "fixed_coords s' \<noteq> []"
    by simp_all
qed

lemma epoch_body_defined:
  assumes "epoch_body ext a epoch s = Inr s'"
  shows "loss s' \<noteq> None"
    and "train_example a \<Longrightarrow> example_loss s' \<noteq> None"
    and "train_energy a \<Longrightarrow> energy_loss s' \<noteq> None"
    and "epoch mod log_freq a = 0
           \<or> (loss_val s \<noteq> None \<and> example_loss_val s \<noteq> None \<and> energy_loss_val s \<noteq> None
              \<and> fixed_energy s \<noteq> None \<and> fixed_coords s \<noteq> [])
         \<Longrightarrow> loss_val s' \<noteq> None \<and> example_loss_val s' \<noteq> None \<and> energy_loss_val s' \<noteq> None
              \<and> fixed_energy s' \<noteq> None \<and> fixed_coords s' \<noteq> []"
proof -
  from train_step_epoch_body [OF assms] obtain s4 where
    ts: "train_step ext a epoch s = Inr s4" and
    tail: "if epoch mod log_freq a = 0 then validate_log ext a epoch s4 = Inr s' else s' = s4"
    by blast
  note f = train_step_frame [OF ts]
  have keep: "loss s' = loss s4 \<and> example_loss s' = example_loss s4
      \<and> energy_loss s' = energy_loss s4"
    using tail validate_log_frame(1,2,3) [of ext a epoch s4 s'] by (auto split: if_splits)
  show "loss s' \<noteq> None" using keep f(13) by simp
  show "example_loss s' \<noteq> None" if "train_example a" using keep f(14) [OF that] by simp
  show "energy_loss s' \<noteq> None" if "train_energy a" using keep f(15) [OF that] by simp
  show "loss_val s' \<noteq> None \<and> example_loss_val s' \<noteq> None \<and> energy_loss_val s' \<noteq> None
              \<and> fixed_energy s' \<noteq> None \<and> fixed_coords s' \<noteq> []"
    if h: "epoch mod log_freq a = 0
           \<or> (loss_val s \<noteq> None \<and> example_loss_val s \<noteq> None \<and> energy_loss_val s \<noteq> None
              \<and> fixed_energy s \<noteq> None \<and> fixed_coords s \<noteq> [])"
  proof (cases "epoch mod log_freq a = 0")
    case True
    with tail have "validate_log ext a epoch s4 = Inr s'" by simp
    from validate_log_defined [OF this] show ?thesis by simp
  next
    case False
    with tail have "s' = s4" by simp
    with h False show ?thesis by (simp add: f)
  qed
qed

lemma run_epochs_defined:
  assumes "run_epochs ext a epoch k s = Inr s'"
    and "loss s \<noteq> None" and "train_example a \<longrightarrow> example_loss s \<noteq> None"
    and "train_energy a \<longrightarrow> energy_loss s \<noteq> None"
    and "loss_val s \<noteq> None \<and> example_loss_val s \<noteq> None \<and> energy_loss_val s \<noteq> None
              \<and> fixed_energy s \<noteq> None \<and> fixed_coords s \<noteq> []"
  shows "loss s' \<noteq> None \<and> (train_example a \<longrightarrow> example_loss s' \<noteq> None)
     \<and> (train_energy a \<longrightarrow> energy_loss s' \<noteq> None)
     \<and> loss_val s' \<noteq> None \<and> example_loss_val s' \<noteq> None \<and> energy_loss_val s' \<noteq> None
     \<and> fixed_energy s' \<noteq> None \<and> fixed_coords s' \<noteq> []"
  using assms
proof (induction k arbitrary: epoch s)
  case 0
  then show ?case by simp
next
  case (Suc k)
  from Suc.prems(1) obtain s1 where
    e: "epoch_body ext a epoch s = Inr s1" and r: "run_epochs ext a (epoch + 1) k s1 = Inr s'"
    by (auto split: sum.splits)
  note d = epoch_body_defined [OF e]
  show ?case
    by (rule Suc.IH [OF r]) (use d Suc.prems in auto)
qed

lemma final_report_defined:
  assumes "loss s = Some l" and "train_example a \<longrightarrow> example_loss s \<noteq> None"
    and "train_energy a \<longrightarrow> energy_loss s \<noteq> None"
    and "loss_val s \<noteq> None" and "example_loss_val s \<noteq> None" and "energy_loss_val s \<noteq> None"
    and "fixed_energy s \<noteq> None"
  shows "\<exists>w'. final_report a s = Inr w'"
  using assms
  by (auto simp: final_report_def Let_def then_do_def print_local_def read_local_def)

lemma final_report_unbound:
  assumes "loss s = None"
  shows "final_report a s
           = Inl (UnboundLocalError ''loss'',
                  save_file (SaveNetwork (''models/'' @ output_name a @ ''.pkl''))
                    (''models/'' @ output_name a @ ''.pkl'') (wld s))"
  using assms
  by (simp add: final_report_def Let_def then_do_def print_local_def read_local_def)

lemmas init_defs = initialise_def load_trajectory_def create_tensorboard_def print_line_def
  print_labelled_def
  log_io_def build_network_def load_network_def print_number_trainable_params_def
  coupling_layers_of_def setup_optimizer_def setup_scheduler_def get_openmm_context_def
  truthy_def np_random_shuffle_def py_int_def slice_to_def slice_from_def slice_bound_def
  torch_normal_def advance_def Let_def

lemma demo_run_epochs_runs:
  "\<exists>s. run_epochs demo_ext demo_args 0 (nat (epochs demo_args)) demo_state = Inr s"
proof -
  from demo_epoch_runs obtain s where "epoch_body demo_ext demo_args 0 demo_state = Inr s" ..
  moreover have "nat (epochs demo_args) = Suc 0" by (simp add: demo_args_def)
  ultimately show ?thesis by simp
qed

lemma demo_initialise_runs:
  "\<exists>s0. initialise demo_ext (Some (demo_args\<lparr>epochs := 0\<rparr>)) (demo_args\<lparr>epochs := 0\<rparr>) Cpu
           (\<lambda>i. i) (\<lambda>i. 1) demo_world = Inr s0
        \<and> files (wld s0) = {''runs/run'', ''p.pdb'', ''t.dcd''}
        \<and> io (wld s0) = [OpenWriter ''runs/run'', LoadTrajectory ''t.dcd'' ''p.pdb'', ReadPdb ''p.pdb'']"
  by (simp add: init_defs demo_defs upt_rec mod_Suc)

text \<open>
  C8. With \<open>epochs \<ge> 1\<close> and \<open>log_freq \<ge> 1\<close>, a loop that completes leaves every
  local that the final report reads bound (pass 0 always validates, since
  \<open>0 mod log_freq = 0\<close>), so the report after the save raises nothing, and
  \<^verbatim>\<open>fixed_coords\<close> is not empty. With no pass at all (\<open>epochs \<le> 0\<close>) the run saves
  the model and then fails with UnboundLocalError on \<^verbatim>\<open>loss\<close>.
\<close>

theorem finalizing_reads_defined:
  "(1 \<le> epochs a \<and> 1 \<le> log_freq a \<and> run_epochs ext a 0 (nat (epochs a)) s0 = Inr s \<longrightarrow>
      loss s \<noteq> None \<and> (train_example a \<longrightarrow> example_loss s \<noteq> None)
      \<and> (train_energy a \<longrightarrow> energy_loss s \<noteq> None)
      \<and> loss_val s \<noteq> None \<and> example_loss_val s \<noteq> None \<and> energy_loss_val s \<noteq> None
      \<and> fixed_energy s \<noteq> None \<and> fixed_coords s \<noteq> []
      \<and> (\<exists>w'. final_report a s = Inr w'))
   \<and> (epochs a \<le> 0 \<and> initialise ext global_args a dev g_np g_torch w = Inr s0 \<longrightarrow>
      run_training ext global_args a dev g_np g_torch w
        = Inl (UnboundLocalError ''loss'',
               save_file (SaveNetwork (''models/'' @ output_name a @ ''.pkl''))
                 (''models/'' @ output_name a @ ''.pkl'') (wld s0)))"
proof -
  have part1: "loss s \<noteq> None \<and> (train_example a \<longrightarrow> example_loss s \<noteq> None)
      \<and> (train_energy a \<longrightarrow> energy_loss s \<noteq> None)
      \<and> loss_val s \<noteq> None \<and> example_loss_val s \<noteq> None \<and> energy_loss_val s \<noteq> None
      \<and> fixed_energy s \<noteq> None \<and> fixed_coords s \<noteq> []
      \<and> (\<exists>w'. final_report a s = Inr w')"
    if h: "1 \<le> epochs a \<and> 1 \<le> log_freq a \<and> run_epochs ext a 0 (nat (epochs a)) s0 = Inr s"
  proof -
    from h obtain k where k: "nat (epochs a) = Suc k" by (cases "nat (epochs a)") auto
  with h obtain s1 where
    e: "epoch_body ext a 0 s0 = Inr s1" and r: "run_epochs ext a 1 k s1 = Inr s"
    by (auto split: sum.splits)
  note d = epoch_body_defined [OF e]
  have all: "loss s \<noteq> None \<and> (train_example a \<longrightarrow> example_loss s \<noteq> None)
     \<and> (train_energy a \<longrightarrow> energy_loss s \<noteq> None)
     \<and> loss_val s \<noteq> None \<and> example_loss_val s \<noteq> None \<and> energy_loss_val s \<noteq> None
     \<and> fixed_energy s \<noteq> None \<and> fixed_coords s \<noteq> []"
    by (rule run_epochs_defined [OF r]) (use d in auto)
  then obtain l where "loss s = Some l" by auto
  from final_report_defined [OF this] all have "\<exists>w'. final_report a s = Inr w'" by blast
  with all show ?thesis by blast
  qed
  have part2: "run_training ext global_args a dev g_np g_torch w
        = Inl (UnboundLocalError ''loss'',
               save_file (SaveNetwork (''models/'' @ output_name a @ ''.pkl''))
                 (''models/'' @ output_name a @ ''.pkl'') (wld s0))"
    if h: "epochs a \<le> 0 \<and> initialise ext global_args a dev g_np g_torch w = Inr s0"
  proof -
  from h have n: "nat (epochs a) = 0" by simp
  from h have i: "initialise ext global_args a dev g_np g_torch w = Inr s0" by simp
  from initialise_Inr [OF i] have "loss s0 = None" by auto
  from final_report_unbound [OF this] h n
  show ?thesis
    by (simp add: run_training_def finalize_def then_do_def)
  qed
  from part1 part2 show ?thesis by blast
qed

theorem finalizing_reads_defined_witness:
  "1 \<le> epochs demo_args \<and> 1 \<le> log_freq demo_args
   \<and> (\<exists>s. run_epochs demo_ext demo_args 0 (nat (epochs demo_args)) demo_state = Inr s
         \<and> loss s \<noteq> None \<and> loss_val s \<noteq> None \<and> fixed_energy s \<noteq> None
         \<and> fixed_coords s \<noteq> [] \<and> (\<exists>w'. final_report demo_args s = Inr w'))
   \<and> epochs (demo_args\<lparr>epochs := 0\<rparr>) \<le> 0
   \<and> (\<exists>w'. run_training demo_ext (Some (demo_args\<lparr>epochs := 0\<rparr>)) (demo_args\<lparr>epochs := 0\<rparr>) Cpu
              (\<lambda>i. i) (\<lambda>i. 1) demo_world = Inl (UnboundLocalError ''loss'', w')
           \<and> ''models/run.pkl'' \<in> files w'
           \<and> io w' = [OpenWriter ''runs/run'', LoadTrajectory ''t.dcd'' ''p.pdb'', ReadPdb ''p.pdb'',
                      SaveNetwork ''models/run.pkl''])"
proof -
  have p: "1 \<le> epochs demo_args" "1 \<le> log_freq demo_args" by (simp_all add: demo_args_def)
  from demo_run_epochs_runs obtain s where
    r: "run_epochs demo_ext demo_args 0 (nat (epochs demo_args)) demo_state = Inr s" ..
  from finalizing_reads_defined [of demo_args demo_ext demo_state s] p r
  have 1: "loss s \<noteq> None \<and> loss_val s \<noteq> None \<and> fixed_energy s \<noteq> None
         \<and> fixed_coords s \<noteq> [] \<and> (\<exists>w'. final_report demo_args s = Inr w')"
    by blast
  have q: "epochs (demo_args\<lparr>epochs := 0\<rparr>) \<le> 0" by simp
  from demo_initialise_runs obtain s0 where
    i: "initialise demo_ext (Some (demo_args\<lparr>epochs := 0\<rparr>)) (demo_args\<lparr>epochs := 0\<rparr>) Cpu
           (\<lambda>i. i) (\<lambda>i. 1) demo_world = Inr s0" and
    w: "files (wld s0) = {''runs/run'', ''p.pdb'', ''t.dcd''}"
       "io (wld s0) = [OpenWriter ''runs/run'', LoadTrajectory ''t.dcd'' ''p.pdb'', ReadPdb ''p.pdb'']"
    by blast
  from finalizing_reads_defined
    [of "demo_args\<lparr>epochs := 0\<rparr>" demo_ext s0 s0 "Some (demo_args\<lparr>epochs := 0\<rparr>)" Cpu
        "\<lambda>i. i" "\<lambda>i. 1" demo_world] q i
  have 2: "run_training demo_ext (Some (demo_args\<lparr>epochs := 0\<rparr>)) (demo_args\<lparr>epochs := 0\<rparr>) Cpu
              (\<lambda>i. i) (\<lambda>i. 1) demo_world
        = Inl (UnboundLocalError ''loss'',
               save_file (SaveNetwork (''models/'' @ output_name (demo_args\<lparr>epochs := 0\<rparr>) @ ''.pkl''))
                 (''models/'' @ output_name (demo_args\<lparr>epochs := 0\<rparr>) @ ''.pkl'') (wld s0))"
    by blast
  have 3: "''models/run.pkl'' \<in> files (save_file (SaveNetwork (''models/'' @ output_name (demo_args\<lparr>epochs := 0\<rparr>) @ ''.pkl''))
                 (''models/'' @ output_name (demo_args\<lparr>epochs := 0\<rparr>) @ ''.pkl'') (wld s0))"
    "io (save_file (SaveNetwork (''models/'' @ output_name (demo_args\<lparr>epochs := 0\<rparr>) @ ''.pkl''))
                 (''models/'' @ output_name (demo_args\<lparr>epochs := 0\<rparr>) @ ''.pkl'') (wld s0))
       = [OpenWriter ''runs/run'', LoadTrajectory ''t.dcd'' ''p.pdb'', ReadPdb ''p.pdb'',
                      SaveNetwork ''models/run.pkl'']"
    by (simp_all add: save_file_def log_io_def w demo_args_def)
  from p r 1 q 2 3 show ?thesis by blast
qed


section \<open>The validation split\<close>

lemma shuffle_loop_mset:
  "k < length xs \<Longrightarrow> mset (fst (shuffle_loop k g xs)) = mset xs"
proof (induction k arbitrary: g xs)
  case 0
  then show ?case by simp
next
  case (Suc k)
  let ?j = "g 0 mod Suc (Suc k)"
  let ?ys = "xs[Suc k := xs ! ?j, ?j := xs ! Suc k]"
  have "?j < Suc (Suc k)" by simp
  with Suc.prems have j: "?j < length xs" by linarith
  have "mset ?ys = mset xs" using mset_swap [OF j Suc.prems] .
  moreover have "k < length ?ys" using Suc.prems by simp
  ultimately show ?case using Suc.IH [of ?ys "advance 1 g"] by (simp add: Let_def)
qed

lemma np_random_shuffle_mset: "mset (fst (np_random_shuffle g xs)) = mset xs"
proof (cases xs)
  case Nil
  then show ?thesis by (simp add: np_random_shuffle_def)
next
  case (Cons x ys)
  then have "length xs - 1 < length xs" by simp
  then show ?thesis unfolding np_random_shuffle_def by (rule shuffle_loop_mset)
qed

lemma py_int_Inr:
  "py_int x = Inr k \<longleftrightarrow> (\<exists>v. x = Finite64 v \<and> k = (if 0 \<le> v then \<lfloor>v\<rfloor> else \<lceil>v\<rceil>))"
  by (cases x) (auto simp: py_int_def)

lemma slice_bound_cases:
  "slice_bound k n = (if k < 0 then n - nat (- k) else min (nat k) n)"
  by (auto simp: slice_bound_def)

lemma epoch_body_splits:
  assumes "epoch_body ext a epoch s = Inr s'"
  shows "val_data s' = val_data s" and "train_data s' = train_data s"
proof -
  from train_step_epoch_body [OF assms] obtain s4 where
    ts: "train_step ext a epoch s = Inr s4" and
    tail: "if epoch mod log_freq a = 0 then validate_log ext a epoch s4 = Inr s' else s' = s4"
    by blast
  note f = train_step_frame [OF ts]
  show "val_data s' = val_data s"
    using tail validate_log_frame(5) [of ext a epoch s4 s'] by (auto simp: f split: if_splits)
  show "train_data s' = train_data s"
    using tail validate_log_frame(4) [of ext a epoch s4 s'] by (auto simp: f split: if_splits)
qed

lemma run_epochs_splits:
  "run_epochs ext a epoch k s = Inr s' \<Longrightarrow> val_data s' = val_data s \<and> train_data s' = train_data s"
proof (induction k arbitrary: epoch s)
  case 0
  then show ?case by simp
next
  case (Suc k)
  from Suc.prems obtain s1 where
    e: "epoch_body ext a epoch s = Inr s1" and r: "run_epochs ext a (epoch + 1) k s1 = Inr s'"
    by (auto split: sum.splits)
  from Suc.IH [OF r] epoch_body_splits [OF e] show ?case by simp
qed

text \<open>
  C10, as the code has it. Line 255 divides the frame count by \<open>args.fold_validation\<close> in
  double precision and converts the quotient with \<open>int()\<close>, which truncates towards zero; lines
  259-260 use the result as a slice bound. Whenever the set-up returns, with \<open>q\<close> the double
  quotient and \<open>n_val\<close> its truncation: the shuffled data is a permutation of the loaded
  frames; the validation split is the first \<open>cut\<close> rows of the shuffled data and the training
  split is the rows from \<open>cut\<close> on, where \<open>cut\<close> is \<open>min n_val n\<close> for \<open>n_val \<ge> 0\<close> and
  \<open>n - min (- n_val) n\<close> for \<open>n_val < 0\<close> (a negative bound counts from the end); the two splits
  concatenate to the shuffled data and their lengths add up to the number of frames. For a
  quotient \<open>q \<ge> 0\<close> the validation split is the first \<open>\<lfloor>q\<rfloor>\<close> rows. Any number of passes of the
  training loop, started at any index, leaves both splits as the set-up made them.
\<close>

theorem splits_partition_shuffled_data:
  assumes "initialise ext global_args a dev g_np g_torch w = Inr s0"
    and "run_epochs ext a epoch k s0 = Inr s"
  shows "\<exists>tr w2 shuffled q n_val cut.
      load_trajectory ext global_args (pdb_path a) (dcd_path a)
        (create_tensorboard (output_name a) w) = Inr (tr, w2)
    \<and> shuffled = fst (np_random_shuffle g_np (xyz tr))
    \<and> mset shuffled = mset (xyz tr)
    \<and> fold_validation a \<noteq> Finite64 0
    \<and> float_div ext (int (length (xyz tr))) (fold_validation a) = Finite64 q
    \<and> n_val = (if 0 \<le> q then \<lfloor>q\<rfloor> else \<lceil>q\<rceil>)
    \<and> cut = (if n_val < 0 then length shuffled - nat (- n_val)
              else min (nat n_val) (length shuffled))
    \<and> val_data s0 = take cut shuffled \<and> train_data s0 = drop cut shuffled
    \<and> val_data s0 @ train_data s0 = shuffled
    \<and> length (val_data s0) + length (train_data s0) = length (xyz tr)
    \<and> (0 \<le> q \<longrightarrow> val_data s0 = take (nat \<lfloor>q\<rfloor>) shuffled
                   \<and> train_data s0 = drop (nat \<lfloor>q\<rfloor>) shuffled)
    \<and> val_data s = val_data s0 \<and> train_data s = train_data s0"
proof -
  from initialise_Inr [OF assms(1)] obtain tr w2 n_val where
    lt: "load_trajectory ext global_args (pdb_path a) (dcd_path a)
           (create_tensorboard (output_name a) w) = Inr (tr, w2)" and
    nz: "fold_validation a \<noteq> Finite64 0" and
    pi: "py_int (float_div ext (int (length (xyz tr))) (fold_validation a)) = Inr n_val" and
    v: "val_data s0 = slice_to n_val (fst (np_random_shuffle g_np (xyz tr)))" and
    t: "train_data s0 = slice_from n_val (fst (np_random_shuffle g_np (xyz tr)))"
    by auto
  from pi obtain q where
    fd: "float_div ext (int (length (xyz tr))) (fold_validation a) = Finite64 q" and
    nv: "n_val = (if 0 \<le> q then \<lfloor>q\<rfloor> else \<lceil>q\<rceil>)"
    by (auto simp: py_int_Inr)
  define shuffled where "shuffled = fst (np_random_shuffle g_np (xyz tr))"
  define cut where "cut = (if n_val < 0 then length shuffled - nat (- n_val)
              else min (nat n_val) (length shuffled))"
  have ms: "mset shuffled = mset (xyz tr)"
    unfolding shuffled_def by (rule np_random_shuffle_mset)
  then have len: "length shuffled = length (xyz tr)" by (rule mset_eq_length)
  have cut_eq: "slice_bound n_val (length shuffled) = cut"
    by (simp only: cut_def slice_bound_cases)
  have tk: "val_data s0 = take cut shuffled" and dr: "train_data s0 = drop cut shuffled"
    by (simp_all add: v t slice_to_def slice_from_def cut_eq [symmetric] shuffled_def)
  then have app: "val_data s0 @ train_data s0 = shuffled" by simp
  then have "length (val_data s0 @ train_data s0) = length (xyz tr)" by (simp only: len)
  then have sum: "length (val_data s0) + length (train_data s0) = length (xyz tr)" by simp
  have pos: "0 \<le> q \<longrightarrow> val_data s0 = take (nat \<lfloor>q\<rfloor>) shuffled
                   \<and> train_data s0 = drop (nat \<lfloor>q\<rfloor>) shuffled"
    by (auto simp add: tk dr cut_def nv min_def)
  note inv = run_epochs_splits [OF assms(2)]
  show ?thesis
    by (intro exI conjI)
       (rule lt shuffled_def ms nz fd nv cut_def tk dr app sum pos conjunct1 [OF inv] conjunct2 [OF inv])+
qed


lemma demo_initialise_then_loop:
  "\<exists>s0 s. initialise demo_ext (Some demo_args) demo_args Cpu (\<lambda>i. i) (\<lambda>i. 1) demo_world = Inr s0
         \<and> run_epochs demo_ext demo_args 0 (nat (epochs demo_args)) s0 = Inr s"
  by (simp add: init_defs block_defs demo_defs upt_rec mod_Suc)

theorem splits_partition_shuffled_data_witness:
  "\<exists>s0 s. initialise demo_ext (Some demo_args) demo_args Cpu (\<lambda>i. i) (\<lambda>i. 1) demo_world = Inr s0
     \<and> run_epochs demo_ext demo_args 0 (nat (epochs demo_args)) s0 = Inr s
     \<and> float_div demo_ext (int (length (xyz demo_traj))) (fold_validation demo_args)
         = Finite64 (3 / 2)
     \<and> val_data s = [[0, 0, 3, 0, 0, 0, 0, 0, 0]]
     \<and> train_data s = [[0, 2, 0, 0, 0, 0, 0, 0, 0], [1, 0, 0, 0, 0, 0, 0, 0, 0]]"
proof -
  from demo_initialise_then_loop obtain s0 s where
    i: "initialise demo_ext (Some demo_args) demo_args Cpu (\<lambda>i. i) (\<lambda>i. 1) demo_world = Inr s0" and
    r: "run_epochs demo_ext demo_args 0 (nat (epochs demo_args)) s0 = Inr s"
    by blast
  from splits_partition_shuffled_data [OF i r] obtain tr w2 shuffled q where
    lt: "load_trajectory demo_ext (Some demo_args) (pdb_path demo_args) (dcd_path demo_args)
           (create_tensorboard (output_name demo_args) demo_world) = Inr (tr, w2)" and
    sh: "shuffled = fst (np_random_shuffle (\<lambda>i. i) (xyz tr))" and
    fd: "float_div demo_ext (int (length (xyz tr))) (fold_validation demo_args) = Finite64 q" and
    pos: "0 \<le> q \<longrightarrow> val_data s0 = take (nat \<lfloor>q\<rfloor>) shuffled
                   \<and> train_data s0 = drop (nat \<lfloor>q\<rfloor>) shuffled" and
    inv: "val_data s = val_data s0" "train_data s = train_data s0"
    by blast
  from lt have tr: "tr = demo_traj"
    by (simp add: load_trajectory_def demo_ext_def demo_args_def Let_def)
  have quot: "float_div demo_ext (int (length (xyz demo_traj))) (fold_validation demo_args)
         = Finite64 (3 / 2)"
    by (simp add: demo_ext_def demo_traj_def demo_args_def)
  with fd have q: "q = 3 / 2" by (simp add: tr)
  have shuffled: "shuffled = [[0, 0, 3, 0, 0, 0, 0, 0, 0], [0, 2, 0, 0, 0, 0, 0, 0, 0],
                              [1, 0, 0, 0, 0, 0, 0, 0, 0]]"
    by (simp add: sh tr demo_traj_def np_random_shuffle_def advance_def Let_def mod_Suc)
  have n: "nat \<lfloor>q\<rfloor> = 1" by (simp add: q)
  from pos inv have "val_data s = [[0, 0, 3, 0, 0, 0, 0, 0, 0]]"
    "train_data s = [[0, 2, 0, 0, 0, 0, 0, 0, 0], [1, 0, 0, 0, 0, 0, 0, 0, 0]]"
    by (simp_all add: n shuffled q)
  with i r quot show ?thesis by blast
qed

text \<open>
  C10 as written, with the floor in place of \<open>int()\<close>, fails for a negative
  \<open>--fold-validation\<close>, which the argument parser accepts as any float. With the three frames
  of the instance and \<open>fold_validation = - 2\<close> the quotient is \<open>- 3 / 2\<close>, whose floor is \<open>- 2\<close>
  while \<open>int()\<close> gives \<open>- 1\<close>: the validation split is the first two shuffled rows and the
  training split is the last one. That is neither the first \<open>\<lfloor>- 3 / 2\<rfloor>\<close> rows (none, as a
  count) nor the rows before the slice bound \<open>\<lfloor>- 3 / 2\<rfloor>\<close> (the first row only).
\<close>

theorem splits_partition_counterexample:
  "map_sum fst (\<lambda>s. (val_data s, train_data s))
     (initialise demo_ext (Some (demo_args\<lparr>fold_validation := Finite64 (- 2)\<rparr>)) (demo_args\<lparr>fold_validation := Finite64 (- 2)\<rparr>) Cpu (\<lambda>i. i) (\<lambda>i. 1) demo_world)
     = Inr ([[0, 0, 3, 0, 0, 0, 0, 0, 0], [0, 2, 0, 0, 0, 0, 0, 0, 0]],
            [[1, 0, 0, 0, 0, 0, 0, 0, 0]])
   \<and> float_div demo_ext (int (length (xyz demo_traj))) (fold_validation (demo_args\<lparr>fold_validation := Finite64 (- 2)\<rparr>)) = Finite64 (- 3 / 2)
   \<and> \<lfloor>- 3 / 2 :: real\<rfloor> = - 2
   \<and> map_sum fst val_data
        (initialise demo_ext (Some (demo_args\<lparr>fold_validation := Finite64 (- 2)\<rparr>)) (demo_args\<lparr>fold_validation := Finite64 (- 2)\<rparr>) Cpu (\<lambda>i. i) (\<lambda>i. 1) demo_world)
       \<noteq> Inr (take (nat \<lfloor>- 3 / 2 :: real\<rfloor>) (fst (np_random_shuffle (\<lambda>i. i) (xyz demo_traj))))
   \<and> map_sum fst val_data
        (initialise demo_ext (Some (demo_args\<lparr>fold_validation := Finite64 (- 2)\<rparr>)) (demo_args\<lparr>fold_validation := Finite64 (- 2)\<rparr>) Cpu (\<lambda>i. i) (\<lambda>i. 1) demo_world)
       \<noteq> Inr (slice_to \<lfloor>- 3 / 2 :: real\<rfloor> (fst (np_random_shuffle (\<lambda>i. i) (xyz demo_traj))))"
  by (simp add: init_defs demo_defs upt_rec mod_Suc)

end
